theory Spec2Isabelle
  imports Main
begin

section \<open>Calendar triggers: data model\<close>

text \<open>
  The embedding of \<^verbatim>\<open>server-plugins/calendar-resources/src/index.ts\<close>.
  Document references (\<^verbatim>\<open>Ref<T>\<close>) are strings. A document is a record of the fields
  the triggers read; every other attribute of an event (title, dates, visibility,
  timestamps) travels in \<open>e_rest\<close>, an object as a list of key/value pairs in key order.
\<close>

type_synonym Ref = string

type_synonym Obj = "(string \<times> string) list"

record PersonAccount =
  pa_id :: Ref
  person :: Ref
  email :: string

text \<open>
  \<open>c_default\<close> is \<^verbatim>\<open>(c as ExternalCalendar).default\<close>: a plain calendar has no such
  field, which reads as \<^verbatim>\<open>undefined\<close>.
\<close>

record Calendar =
  c_id :: Ref
  c_createdBy :: "Ref option"
  c_modifiedBy :: Ref
  hidden :: bool
  c_default :: "bool option"

record Event =
  e_id :: Ref
  e_class :: Ref
  space :: Ref
  attachedTo :: Ref
  attachedToClass :: Ref
  collection :: string
  createdBy :: "Ref option"
  modifiedBy :: Ref
  eventId :: string
  calendar :: Ref
  access :: string
  participants :: "Ref list"
  e_rest :: Obj

text \<open>
  \<^verbatim>\<open>const { _class, space, attachedTo, attachedToClass, collection, ...attr } = event\<close>:
  the rest object keeps every other field of the event.
\<close>

record EventData =
  d_id :: Ref
  d_createdBy :: "Ref option"
  d_modifiedBy :: Ref
  d_eventId :: string
  d_calendar :: Ref
  d_access :: string
  d_participants :: "Ref list"
  d_rest :: Obj

definition attr :: "Event \<Rightarrow> EventData" where
  "attr event =
     \<lparr> d_id = e_id event, d_createdBy = createdBy event, d_modifiedBy = modifiedBy event,
       d_eventId = eventId event, d_calendar = calendar event, d_access = access event,
       d_participants = participants event, d_rest = e_rest event \<rparr>"

record Doc =
  doc_id :: Ref
  doc_class :: Ref

text \<open>
  The attributes handed to \<^verbatim>\<open>createTxCreateDoc\<close>: the data of a reader copy, or the
  \<^verbatim>\<open>{ name, hidden, visibility }\<close> of a new calendar.
\<close>

datatype DocData =
    EventAttrs EventData
  | CalendarAttrs string bool string

text \<open>
  An outgoing transaction is the call of the transaction factory that builds it, with
  the arguments the source passes (\<^verbatim>\<open>modifiedOn\<close> is \<^verbatim>\<open>undefined\<close> at every call
  and is left out). The factory itself belongs to the host: it adds a transaction id and a
  time, and generates the object id of a creation when none is given.
  \<^item> \<open>createTxCreateDoc _class space attributes objectId modifiedBy\<close>
  \<^item> \<open>createTxUpdateDoc _class space objectId operations\<close>
  \<^item> \<open>createTxRemoveDoc _class space objectId\<close>
  \<^item> \<open>createTxCollectionCUD _class objectId space collection tx modifiedBy\<close>
\<close>

datatype Tx =
    createTxCreateDoc Ref Ref DocData "Ref option" "Ref option"
  | createTxUpdateDoc Ref Ref Ref Obj
  | createTxRemoveDoc Ref Ref Ref
  | createTxCollectionCUD Ref Ref Ref string Tx "Ref option"

text \<open>
  The incoming transaction after \<^verbatim>\<open>TxProcessor.extractTx\<close>; its \<^verbatim>\<open>_class\<close> is the
  constructor, \<open>TxMixin\<close> standing for every class the dispatch does not name. The
  payload of a creation is left to \<^verbatim>\<open>TxProcessor.createDoc2Doc\<close>, which the handlers
  take as a parameter (it is host code).
\<close>

record TxUpdateDoc =
  u_objectId :: Ref
  operations :: Obj

record TxRemoveDoc =
  r_objectId :: Ref

datatype 'c TxCUD =
    TxCreateDoc 'c
  | TxUpdateDoc TxUpdateDoc
  | TxRemoveDoc TxRemoveDoc
  | TxMixin

text \<open>
  \<^verbatim>\<open>TriggerControl\<close>: what the host lets a trigger read. \<open>events\<close>, \<open>calendars\<close>
  and \<open>accounts\<close> are the documents \<^verbatim>\<open>control.findAll\<close> ranges over for the three
  classes, in the order of the store; \<open>docs cls\<close> those of any other class \<open>cls\<close>;
  \<open>modelDb\<close> the accounts \<^verbatim>\<open>control.modelDb.findAllSync\<close> ranges over; \<open>removedMap\<close>
  the cache of the documents just removed.
\<close>

record TriggerControl =
  events :: "Event list"
  calendars :: "Calendar list"
  accounts :: "PersonAccount list"
  modelDb :: "PersonAccount list"
  docs :: "Ref \<Rightarrow> Doc list"
  removedMap :: "Ref \<Rightarrow> Event option"

text \<open>\<^verbatim>\<open>a ?? b\<close>: \<open>b\<close> when \<open>a\<close> is null or undefined.\<close>

definition nullish :: "'a option \<Rightarrow> 'a \<Rightarrow> 'a" where
  "nullish a b = (case a of Some x \<Rightarrow> x | None \<Rightarrow> b)"

text \<open>
  A JavaScript \<^verbatim>\<open>Set\<close> keeps its members in insertion order, each once: a list
  without repetition. \<open>Set_new\<close> is \<^verbatim>\<open>new Set(array)\<close>, \<open>Set_delete\<close> is
  \<^verbatim>\<open>set.delete(x)\<close>.
\<close>

definition Set_add :: "'a \<Rightarrow> 'a list \<Rightarrow> 'a list" where
  "Set_add x s = (if x \<in> set s then s else s @ [x])"

definition Set_new :: "'a list \<Rightarrow> 'a list" where
  "Set_new xs = fold Set_add xs []"

definition Set_delete :: "'a list \<Rightarrow> 'a \<Rightarrow> 'a list" where
  "Set_delete s x = filter (\<lambda>y. y \<noteq> x) s"

text \<open>The plugin's identifiers, declared outside this module; only their identity matters.\<close>

definition calendar_class_Calendar :: Ref where
  "calendar_class_Calendar = ''calendar:class:Calendar''"

definition calendar_space_Calendar :: Ref where
  "calendar_space_Calendar = ''calendar:space:Calendar''"

section \<open>Calendar triggers: operations\<close>

subsection \<open>Presenters\<close>

text \<open>
  \<^verbatim>\<open>getHTMLPresenter\<close>/\<^verbatim>\<open>getTextPresenter\<close> (class to registered presenter, or
  undefined) and \<^verbatim>\<open>getResource\<close> (resource to function) belong to the host and are
  parameters. A presenter is host code and is handed the control, through which the store
  is reached: it returns its string and the control as it leaves it, changed if it wrote
  (a transaction applied through the control shows as a change of the store). So the
  helpers return their value and the control after the call. The source itself calls
  \<^verbatim>\<open>findAll\<close>, the registry and the presenter, and nothing that writes.
\<close>

record Presenter =
  presenter :: Ref

definition ReminderHTMLPresenter ::
  "(Ref \<Rightarrow> Presenter option) \<Rightarrow> (Ref \<Rightarrow> Doc \<Rightarrow> TriggerControl \<Rightarrow> string \<times> TriggerControl) \<Rightarrow>
   Event \<Rightarrow> TriggerControl \<Rightarrow> string option \<times> TriggerControl" where
  "ReminderHTMLPresenter getHTMLPresenter getResource event control =
     (case find (\<lambda>d. doc_id d = attachedTo event) (docs control (attachedToClass event)) of
        Some target \<Rightarrow>
          (let HTMLPresenter = getHTMLPresenter (doc_class target)
           in case HTMLPresenter of
                Some p \<Rightarrow>
                  (let (htmlPart, control') = getResource (presenter p) target control
                   in (Some htmlPart, control'))
              | None \<Rightarrow> (None, control))
      | None \<Rightarrow> (None, control))"

definition ReminderTextPresenter ::
  "(Ref \<Rightarrow> Presenter option) \<Rightarrow> (Ref \<Rightarrow> Doc \<Rightarrow> TriggerControl \<Rightarrow> string \<times> TriggerControl) \<Rightarrow>
   Event \<Rightarrow> TriggerControl \<Rightarrow> string option \<times> TriggerControl" where
  "ReminderTextPresenter getTextPresenter getResource event control =
     (case find (\<lambda>d. doc_id d = attachedTo event) (docs control (attachedToClass event)) of
        Some target \<Rightarrow>
          (case getTextPresenter (doc_class target) of
             None \<Rightarrow> (None, control)
           | Some TextPresenter \<Rightarrow>
               (let (textPart, control') = getResource (presenter TextPresenter) target control
                in (Some textPart, control')))
      | None \<Rightarrow> (None, control))"

subsection \<open>Account creation\<close>

text \<open>The template literal \<^verbatim>\<open>`${user._id}_calendar`\<close>.\<close>

definition calendarRef :: "Ref \<Rightarrow> Ref" where
  "calendarRef user_id = user_id @ ''_calendar''"

definition OnPersonAccountCreate ::
  "('t \<Rightarrow> 'c) \<Rightarrow> ('c \<Rightarrow> PersonAccount) \<Rightarrow> 't \<Rightarrow> TriggerControl \<Rightarrow> Tx list" where
  "OnPersonAccountCreate extractTx createDoc2Doc tx control =
     (let ctx = extractTx tx;
          user = createDoc2Doc ctx;
          res = createTxCreateDoc calendar_class_Calendar calendar_space_Calendar
                  (CalendarAttrs (email user) False ''public'')
                  (Some (calendarRef (pa_id user))) (Some (pa_id user))
      in [res])"

subsection \<open>Calendar selection and the holder of a copy\<close>

text \<open>
  \<^verbatim>\<open>filtered.find((c) => (c as ExternalCalendar).default)\<close> takes the first calendar
  whose flag is truthy, that is \<^verbatim>\<open>true\<close>; \<^verbatim>\<open>filtered[0]?._id\<close> is undefined on
  an empty array.
\<close>

definition getCalendar :: "Calendar list \<Rightarrow> Ref \<Rightarrow> Ref option" where
  "getCalendar cals person_acc =
     (let filtered = filter (\<lambda>c. nullish (c_createdBy c) (c_modifiedBy c) = person_acc) cals;
          defaultExternal = find (\<lambda>c. c_default c = Some True) filtered
      in case defaultExternal of
           Some c \<Rightarrow> Some (c_id c)
         | None \<Rightarrow> (case filtered of [] \<Rightarrow> None | c # _ \<Rightarrow> Some (c_id c)))"

definition getEventPerson :: "Event \<Rightarrow> Calendar list \<Rightarrow> TriggerControl \<Rightarrow> Ref option" where
  "getEventPerson current cals control =
     (case find (\<lambda>c. c_id c = calendar current) cals of
        None \<Rightarrow> None
      | Some cal \<Rightarrow>
          (let accId = nullish (createdBy current) (modifiedBy current)
           in case find (\<lambda>a. pa_id a = accId) (modelDb control) of
                None \<Rightarrow> None
              | Some acc \<Rightarrow> Some (person acc)))"

subsection \<open>Creation of reader copies\<close>

text \<open>
  The loop of \<^verbatim>\<open>eventForNewParticipants\<close> over the set of new participants; \<open>res\<close> is
  the array the source pushes to.
\<close>

fun eventForNewParticipants_loop ::
  "Event \<Rightarrow> Calendar list \<Rightarrow> PersonAccount list \<Rightarrow> Ref list \<Rightarrow> Tx list \<Rightarrow> Tx list" where
  "eventForNewParticipants_loop event cals accs [] res = res"
| "eventForNewParticipants_loop event cals accs (part # parts) res =
     (case find (\<lambda>a. person a = part) accs of
        None \<Rightarrow> eventForNewParticipants_loop event cals accs parts res
      | Some acc \<Rightarrow>
          if pa_id acc = nullish (createdBy event) (modifiedBy event)
          then eventForNewParticipants_loop event cals accs parts res
          else (case getCalendar cals (pa_id acc) of
                  None \<Rightarrow> eventForNewParticipants_loop event cals accs parts res
                | Some cal \<Rightarrow>
                    (let innerTx = createTxCreateDoc (e_class event) (space event)
                           (EventAttrs ((attr event)\<lparr>d_calendar := cal, d_access := ''reader''\<rparr>))
                           None (Some (pa_id acc));
                         outerTx = createTxCollectionCUD (attachedToClass event) (attachedTo event)
                           (space event) (collection event) innerTx (Some (pa_id acc))
                     in eventForNewParticipants_loop event cals accs parts (res @ [outerTx]))))"

definition eventForNewParticipants ::
  "Event \<Rightarrow> Ref list \<Rightarrow> Calendar list \<Rightarrow> TriggerControl \<Rightarrow> Tx list" where
  "eventForNewParticipants event newParticipants cals control =
     (let accs = filter (\<lambda>a. person a \<in> set (participants event)) (accounts control)
      in eventForNewParticipants_loop event cals accs newParticipants [])"

text \<open>The loop of \<^verbatim>\<open>onEventCreate\<close> over \<^verbatim>\<open>event.participants\<close>.\<close>

fun onEventCreate_loop ::
  "Event \<Rightarrow> Calendar list \<Rightarrow> PersonAccount list \<Rightarrow> Ref list \<Rightarrow> Tx list \<Rightarrow> Tx list" where
  "onEventCreate_loop event cals accs [] res = res"
| "onEventCreate_loop event cals accs (part # parts) res =
     (case find (\<lambda>a. person a = part) accs of
        None \<Rightarrow> onEventCreate_loop event cals accs parts res
      | Some acc \<Rightarrow>
          if pa_id acc = nullish (createdBy event) (modifiedBy event)
          then onEventCreate_loop event cals accs parts res
          else (case getCalendar cals (pa_id acc) of
                  None \<Rightarrow> onEventCreate_loop event cals accs parts res
                | Some cal \<Rightarrow>
                    (let innerTx = createTxCreateDoc (e_class event) (space event)
                           (EventAttrs ((attr event)\<lparr>d_calendar := cal, d_access := ''reader''\<rparr>))
                           None (Some (pa_id acc));
                         outerTx = createTxCollectionCUD (attachedToClass event) (attachedTo event)
                           (space event) (collection event) innerTx (Some (pa_id acc))
                     in onEventCreate_loop event cals accs parts (res @ [outerTx]))))"

definition onEventCreate :: "('c \<Rightarrow> Event) \<Rightarrow> 'c \<Rightarrow> TriggerControl \<Rightarrow> Tx list" where
  "onEventCreate createDoc2Doc ctx control =
     (let event = createDoc2Doc ctx
      in if access event \<noteq> ''owner'' then []
         else
           (let cals = filter (\<lambda>c. \<not> hidden c) (calendars control);
                accs = filter (\<lambda>a. person a \<in> set (participants event)) (accounts control)
            in onEventCreate_loop event cals accs (participants event) []))"

subsection \<open>Update of an event\<close>

text \<open>
  The loop of \<^verbatim>\<open>onEventUpdate\<close> over the copies of the event: \<open>res\<close> is the array of
  transactions, \<open>newParticipants\<close> the set the loop deletes from. \<open>removal\<close> is the
  transaction of the first branch, taken when the holder is undefined or is no participant.
\<close>

fun onEventUpdate_loop ::
  "Event \<Rightarrow> Obj \<Rightarrow> Calendar list \<Rightarrow> TriggerControl \<Rightarrow> Event list \<Rightarrow> Tx list \<Rightarrow> Ref list \<Rightarrow>
   Tx list \<times> Ref list" where
  "onEventUpdate_loop event otherOps cals control [] res newParticipants = (res, newParticipants)"
| "onEventUpdate_loop event otherOps cals control (ev # evs) res newParticipants =
     (if e_id ev = e_id event
      then onEventUpdate_loop event otherOps cals control evs res newParticipants
      else
        (let removal = createTxCollectionCUD (attachedToClass ev) (attachedTo ev) (space ev)
               (collection ev) (createTxRemoveDoc (e_class ev) (space ev) (e_id ev)) None
         in case getEventPerson ev cals control of
              None \<Rightarrow>
                onEventUpdate_loop event otherOps cals control evs (res @ [removal]) newParticipants
            | Some person' \<Rightarrow>
                if person' \<notin> set (participants event)
                then onEventUpdate_loop event otherOps cals control evs (res @ [removal])
                       newParticipants
                else
                  (let innerTx = createTxUpdateDoc (e_class ev) (space ev) (e_id ev) otherOps;
                       outerTx = createTxCollectionCUD (attachedToClass ev) (attachedTo ev)
                         (space ev) (collection ev) innerTx None
                   in onEventUpdate_loop event otherOps cals control evs (res @ [outerTx])
                        (Set_delete newParticipants person'))))"

definition onEventUpdate :: "TxUpdateDoc \<Rightarrow> TriggerControl \<Rightarrow> Tx list" where
  "onEventUpdate ctx control =
     (let ops = operations ctx;
          otherOps = filter (\<lambda>(k, v). k \<noteq> ''visibility'') ops
      in if length otherOps = 0 then []
         else
           (case find (\<lambda>e. e_id e = u_objectId ctx) (events control) of
              None \<Rightarrow> []
            | Some event \<Rightarrow>
                if access event \<noteq> ''owner'' then []
                else
                  (let evs = filter (\<lambda>e. eventId e = eventId event) (events control);
                       newParticipants = Set_new (participants event);
                       cals = filter (\<lambda>c. \<not> hidden c) (calendars control);
                       (res, newParticipants') =
                          onEventUpdate_loop event otherOps cals control evs [] newParticipants
                   in if length newParticipants' = 0 then res
                      else res @ eventForNewParticipants event newParticipants' cals control)))"

subsection \<open>Removal of an event and the dispatch\<close>

text \<open>
  The loop of \<^verbatim>\<open>onRemoveEvent\<close> pushes one removal per event found and has no other
  branch: a \<open>map\<close>. An event missing from the cache leaves the result empty.
\<close>

definition onRemoveEvent :: "TxRemoveDoc \<Rightarrow> TriggerControl \<Rightarrow> Tx list" where
  "onRemoveEvent ctx control =
     (case removedMap control (r_objectId ctx) of
        Some removed \<Rightarrow>
          if access removed \<noteq> ''owner'' then []
          else
            (let current = filter (\<lambda>e. eventId e = eventId removed) (events control)
             in map (\<lambda>cur. createTxRemoveDoc (e_class cur) (space cur) (e_id cur)) current)
      | None \<Rightarrow> [])"

definition OnEvent ::
  "('t \<Rightarrow> 'c TxCUD) \<Rightarrow> ('c \<Rightarrow> Event) \<Rightarrow> 't \<Rightarrow> TriggerControl \<Rightarrow> Tx list" where
  "OnEvent extractTx createDoc2Doc tx control =
     (case extractTx tx of
        TxCreateDoc c \<Rightarrow> onEventCreate createDoc2Doc c control
      | TxUpdateDoc u \<Rightarrow> onEventUpdate u control
      | TxRemoveDoc r \<Rightarrow> onRemoveEvent r control
      | TxMixin \<Rightarrow> [])"

section \<open>Content migration: model\<close>

text \<open>
  The embedding of \<^verbatim>\<open>dev/tool/src/markup.ts\<close>. The storage is a state \<open>'s\<close> that
  the functions pass along; the storage adapter and the helpers of the collaboration
  package belong to the host and are the fields of \<open>Host\<close>. A call that reads returns an
  error (the promise is rejected) or a value; a call that writes returns the storage
  after it and the error, if it failed. \<open>'y\<close> is a collaborative document in memory
  (\<^verbatim>\<open>YDoc\<close>); \<open>share_has y k\<close> is \<^verbatim>\<open>y.share.has(k)\<close>.
  The database is only read, and reading it is taken to succeed. Console output is
  not modelled; the counters that \<^verbatim>\<open>printStats\<close> prints last are returned.
\<close>

datatype error = Error string

record Blob =
  blob_id :: string
  blob_size :: nat

record CollabId =
  objectClass :: Ref
  objectId :: Ref
  objectAttr :: string

record ('s, 'y) Host =
  stat :: "'s \<Rightarrow> string \<Rightarrow> error + Blob option"
  read_blob :: "'s \<Rightarrow> string \<Rightarrow> error + string list"
  put :: "'s \<Rightarrow> string \<Rightarrow> string \<Rightarrow> string \<Rightarrow> nat \<Rightarrow> error option \<times> 's"
  loadCollabYdoc :: "'s \<Rightarrow> CollabId \<Rightarrow> error + 'y option"
  saveCollabYdoc :: "'s \<Rightarrow> CollabId \<Rightarrow> 'y \<Rightarrow> error option \<times> 's"
  share_has :: "'y \<Rightarrow> string \<Rightarrow> bool"
  yDocCopyXmlField :: "'y \<Rightarrow> string \<Rightarrow> string \<Rightarrow> 'y"
  makeCollabYdocId :: "CollabId \<Rightarrow> string"
  makeDocCollabId :: "Doc \<Rightarrow> string \<Rightarrow> CollabId"

text \<open>
  The attributes of a stored transaction are any values: a string, null, an array, or
  something else (a number, a boolean, an object). Reading \<^verbatim>\<open>obj[key]\<close> gives the own
  property, else the one inherited from \<^verbatim>\<open>Object.prototype\<close> (a function or an object,
  never a string), else undefined. Calling a method the value does not have throws a
  \<^verbatim>\<open>TypeError\<close>.
\<close>

datatype JsValue =
    JsString string
  | JsNull
  | JsArray "JsValue list"
  | JsOther

definition Object_prototype :: "string list" where
  "Object_prototype =
     [''constructor'', ''__defineGetter__'', ''__defineSetter__'', ''hasOwnProperty'',
      ''__lookupGetter__'', ''__lookupSetter__'', ''isPrototypeOf'', ''propertyIsEnumerable'',
      ''toString'', ''valueOf'', ''__proto__'', ''toLocaleString'']"

definition getProperty :: "(string \<times> JsValue) list \<Rightarrow> string \<Rightarrow> JsValue option" where
  "getProperty obj key =
     (case map_of obj key of
        Some v \<Rightarrow> Some v
      | None \<Rightarrow> if key \<in> set Object_prototype then Some JsOther else None)"

definition TypeError :: error where
  "TypeError = Error ''TypeError''"

record TxCreateDocRec =
  tx_class :: Ref
  tx_objectId :: Ref
  tx_objectClass :: Ref
  tx_attributes :: "(string \<times> JsValue) list"

text \<open>
  \<open>db_collection d\<close> are the documents of the collection of domain \<open>d\<close> in cursor
  order, \<open>db_tx\<close> the transactions of \<^verbatim>\<open>DOMAIN_TX\<close>.
\<close>

record Db =
  db_collection :: "string \<Rightarrow> Doc list"
  db_tx :: "TxCreateDocRec list"

record RestoreWikiContentParams =
  dryRun :: bool

text \<open>Identifiers declared outside this module; only their identity matters.\<close>

definition DOMAIN_DOCUMENT :: string where
  "DOMAIN_DOCUMENT = ''document''"

definition DOMAIN_DOCUMENTS :: string where
  "DOMAIN_DOCUMENTS = ''documents''"

definition document_class_Document :: Ref where
  "document_class_Document = ''document:class:Document''"

definition documents_class_ControlledDocument :: Ref where
  "documents_class_ControlledDocument = ''documents:class:ControlledDocument''"

definition documents_class_ControlledDocumentSnapshot :: Ref where
  "documents_class_ControlledDocumentSnapshot = ''documents:class:ControlledDocumentSnapshot''"

definition core_class_TxCreateDoc :: Ref where
  "core_class_TxCreateDoc = ''core:class:TxCreateDoc''"

section \<open>Content migration: operations\<close>

text \<open>
  The loop of \<^verbatim>\<open>restoreWikiContentMongo\<close> over the cursor. The result is the error
  that ended the loop, if any, with \<^verbatim>\<open>processedCnt\<close> and \<^verbatim>\<open>restoredCnt\<close> as the
  \<^verbatim>\<open>finally\<close> block prints them, and the storage.
  The source calls \<^verbatim>\<open>storageAdapter.stat\<close> without \<^verbatim>\<open>await\<close> here, so
  \<^verbatim>\<open>stat === undefined\<close> compares a promise and never holds: that test skips no
  document and has no branch below.
\<close>

fun restoreWikiContentMongo_loop ::
  "('s, 'y) Host \<Rightarrow> RestoreWikiContentParams \<Rightarrow> Doc list \<Rightarrow> nat \<Rightarrow> nat \<Rightarrow> 's \<Rightarrow>
   (error option \<times> nat \<times> nat) \<times> 's" where
  "restoreWikiContentMongo_loop host params [] processedCnt restoredCnt st =
     ((None, processedCnt, restoredCnt), st)"
| "restoreWikiContentMongo_loop host params (doc # rest) processedCnt restoredCnt st =
     (let processedCnt = processedCnt + 1;
          correctCollabId =
            \<lparr> objectClass = doc_class doc, objectId = doc_id doc, objectAttr = ''content'' \<rparr>;
          wrongCollabId =
            \<lparr> objectClass = doc_class doc, objectId = doc_id doc, objectAttr = ''description'' \<rparr>
      in case loadCollabYdoc host st correctCollabId of
           Inl err \<Rightarrow> ((Some err, processedCnt, restoredCnt), st)
         | Inr ydoc1 \<Rightarrow>
             (case loadCollabYdoc host st wrongCollabId of
                Inl err \<Rightarrow> ((Some err, processedCnt, restoredCnt), st)
              | Inr ydoc2 \<Rightarrow>
                  if (case ydoc1 of None \<Rightarrow> False | Some y1 \<Rightarrow> share_has host y1 ''content'')
                  then restoreWikiContentMongo_loop host params rest processedCnt restoredCnt st
                  else
                    (case ydoc2 of
                       None \<Rightarrow>
                         restoreWikiContentMongo_loop host params rest processedCnt restoredCnt st
                     | Some y2 \<Rightarrow>
                         if \<not> dryRun params
                         then
                           (let y2' = (if share_has host y2 ''description''
                                          \<and> \<not> share_has host y2 ''content''
                                       then yDocCopyXmlField host y2 ''description'' ''content''
                                       else y2)
                            in case saveCollabYdoc host st correctCollabId y2' of
                                 (Some err, st') \<Rightarrow>
                                   restoreWikiContentMongo_loop host params rest processedCnt
                                     restoredCnt st'
                               | (None, st') \<Rightarrow>
                                   restoreWikiContentMongo_loop host params rest processedCnt
                                     (restoredCnt + 1) st')
                         else
                           restoreWikiContentMongo_loop host params rest processedCnt
                             (restoredCnt + 1) st)))"

definition restoreWikiContentMongo ::
  "('s, 'y) Host \<Rightarrow> Db \<Rightarrow> RestoreWikiContentParams \<Rightarrow> 's \<Rightarrow> (error option \<times> nat \<times> nat) \<times> 's" where
  "restoreWikiContentMongo host db params st =
     (let iterator = filter (\<lambda>d. doc_class d = document_class_Document)
                       (db_collection db DOMAIN_DOCUMENT)
      in restoreWikiContentMongo_loop host params iterator 0 0 st)"

text \<open>
  \<^verbatim>\<open>restoreControlledDocContentForDoc\<close>: the result is the error of a rejected call
  or of a throw outside the \<^verbatim>\<open>try\<close> block, or the boolean returned. \<open>value\<close> is the
  attribute of the creating transaction. \<^verbatim>\<open>value == null\<close> holds of undefined and of
  null. \<^verbatim>\<open>value.includes(':')\<close> is the test for the character on a string and for the
  element on an array, and throws on any other value; \<^verbatim>\<open>value.split(':')[0]\<close> is the
  part of a string before the first colon, and throws on an array.
\<close>

definition restoreControlledDocContentForDoc ::
  "('s, 'y) Host \<Rightarrow> Db \<Rightarrow> RestoreWikiContentParams \<Rightarrow> Doc \<Rightarrow> string \<Rightarrow> 's \<Rightarrow>
   (error + bool) \<times> 's" where
  "restoreControlledDocContentForDoc host db params doc attribute st =
     (let tx = find (\<lambda>t. tx_class t = core_class_TxCreateDoc \<and> tx_objectId t = doc_id doc
                          \<and> tx_objectClass t = doc_class doc) (db_tx db);
          attribures = (case tx of Some t \<Rightarrow> tx_attributes t | None \<Rightarrow> [])
      in case getProperty attribures attribute of
           None \<Rightarrow> (Inr False, st)
         | Some JsNull \<Rightarrow> (Inr False, st)
         | Some JsOther \<Rightarrow> (Inl TypeError, st)
         | Some (JsArray items) \<Rightarrow>
             if JsString '':'' \<notin> set items then (Inr False, st) else (Inl TypeError, st)
         | Some (JsString value) \<Rightarrow>
             if CHR '':'' \<notin> set value then (Inr False, st)
             else
               (let currentYdocId = takeWhile (\<lambda>c. c \<noteq> CHR '':'') value;
                    ydocId = makeCollabYdocId host (makeDocCollabId host doc attribute)
                in case stat host st ydocId of
                     Inl err \<Rightarrow> (Inl err, st)
                   | Inr (Some b) \<Rightarrow> (Inr False, st)
                   | Inr None \<Rightarrow>
                       if \<not> dryRun params
                       then
                         (case stat host st currentYdocId of
                            Inl err \<Rightarrow> (Inr False, st)
                          | Inr None \<Rightarrow> (Inr False, st)
                          | Inr (Some b) \<Rightarrow>
                              (case read_blob host st currentYdocId of
                                 Inl err \<Rightarrow> (Inr False, st)
                               | Inr buffer \<Rightarrow>
                                   (case put host st ydocId (concat buffer) ''application/ydoc''
                                           (length buffer) of
                                      (Some err, st') \<Rightarrow> (Inr False, st')
                                    | (None, st') \<Rightarrow> (Inr True, st'))))
                       else (Inr True, st)))"

text \<open>The loop of \<^verbatim>\<open>restoreControlledDocContentMongo\<close> over the cursor.\<close>

fun restoreControlledDocContentMongo_loop ::
  "('s, 'y) Host \<Rightarrow> Db \<Rightarrow> RestoreWikiContentParams \<Rightarrow> Doc list \<Rightarrow> nat \<Rightarrow> nat \<Rightarrow> 's \<Rightarrow>
   (error option \<times> nat \<times> nat) \<times> 's" where
  "restoreControlledDocContentMongo_loop host db params [] processedCnt restoredCnt st =
     ((None, processedCnt, restoredCnt), st)"
| "restoreControlledDocContentMongo_loop host db params (doc # rest) processedCnt restoredCnt st =
     (case restoreControlledDocContentForDoc host db params doc ''content'' st of
        (Inl err, st') \<Rightarrow> ((Some err, processedCnt, restoredCnt), st')
      | (Inr restored, st') \<Rightarrow>
          restoreControlledDocContentMongo_loop host db params rest (processedCnt + 1)
            (if restored then restoredCnt + 1 else restoredCnt) st')"

definition restoreControlledDocContentMongo ::
  "('s, 'y) Host \<Rightarrow> Db \<Rightarrow> RestoreWikiContentParams \<Rightarrow> 's \<Rightarrow> (error option \<times> nat \<times> nat) \<times> 's" where
  "restoreControlledDocContentMongo host db params st =
     (let iterator = filter (\<lambda>d. doc_class d \<in> set [documents_class_ControlledDocument,
                                                    documents_class_ControlledDocumentSnapshot])
                       (db_collection db DOMAIN_DOCUMENTS)
      in restoreControlledDocContentMongo_loop host db params iterator 0 0 st)"

section \<open>Reading an outgoing transaction\<close>

text \<open>
  \<open>txObjectId\<close> is the object a transaction acts on, under its collection wrapper if it
  has one: the \<^verbatim>\<open>objectId\<close> given to the factory, \<open>None\<close> for a creation whose id the
  factory will generate. \<open>isCreation\<close> holds of a creation, wrapped or not.
\<close>

fun txObjectId :: "Tx \<Rightarrow> Ref option" where
  "txObjectId (createTxCreateDoc cls sp attrs oid by) = oid"
| "txObjectId (createTxUpdateDoc cls sp oid ops) = Some oid"
| "txObjectId (createTxRemoveDoc cls sp oid) = Some oid"
| "txObjectId (createTxCollectionCUD cls oid sp col t by) = txObjectId t"

fun isCreation :: "Tx \<Rightarrow> bool" where
  "isCreation (createTxCreateDoc cls sp attrs oid by) = True"
| "isCreation (createTxCollectionCUD cls oid sp col t by) = isCreation t"
| "isCreation t = False"

section \<open>Example data\<close>

text \<open>
  A store with one event \<open>E\<close> owned by Alice. Bob and Carol hold copies; Carol is no
  longer invited, Erin is invited and has no copy yet, Dave has no account, and Frank's
  only calendar is hidden. Bob has two calendars, the second one his default external
  calendar; Carol's calendar has no \<^verbatim>\<open>createdBy\<close>.
\<close>

definition ex_accounts :: "PersonAccount list" where
  "ex_accounts =
     [\<lparr> pa_id = ''acc-alice'', person = ''alice'', email = ''alice@example.com'' \<rparr>,
      \<lparr> pa_id = ''acc-bob'', person = ''bob'', email = ''bob@example.com'' \<rparr>,
      \<lparr> pa_id = ''acc-carol'', person = ''carol'', email = ''carol@example.com'' \<rparr>,
      \<lparr> pa_id = ''acc-erin'', person = ''erin'', email = ''erin@example.com'' \<rparr>,
      \<lparr> pa_id = ''acc-frank'', person = ''frank'', email = ''frank@example.com'' \<rparr>]"

definition ex_calendars :: "Calendar list" where
  "ex_calendars =
     [\<lparr> c_id = ''cal-alice'', c_createdBy = Some ''acc-alice'', c_modifiedBy = ''acc-alice'',
        hidden = False, c_default = None \<rparr>,
      \<lparr> c_id = ''cal-bob'', c_createdBy = Some ''acc-bob'', c_modifiedBy = ''acc-bob'',
        hidden = False, c_default = None \<rparr>,
      \<lparr> c_id = ''cal-bob-ext'', c_createdBy = Some ''acc-bob'', c_modifiedBy = ''acc-bob'',
        hidden = False, c_default = Some True \<rparr>,
      \<lparr> c_id = ''cal-carol'', c_createdBy = None, c_modifiedBy = ''acc-carol'',
        hidden = False, c_default = None \<rparr>,
      \<lparr> c_id = ''cal-erin'', c_createdBy = Some ''acc-erin'', c_modifiedBy = ''acc-erin'',
        hidden = False, c_default = Some False \<rparr>,
      \<lparr> c_id = ''cal-frank'', c_createdBy = Some ''acc-frank'', c_modifiedBy = ''acc-frank'',
        hidden = True, c_default = None \<rparr>]"

definition ex_owner :: Event where
  "ex_owner =
     \<lparr> e_id = ''ev1'', e_class = ''calendar:class:Event'', space = ''calendar:space:Calendar'',
       attachedTo = ''doc1'', attachedToClass = ''task:class:Task'', collection = ''events'',
       createdBy = Some ''acc-alice'', modifiedBy = ''acc-alice'', eventId = ''E'',
       calendar = ''cal-alice'', access = ''owner'',
       participants = [''alice'', ''bob'', ''dave'', ''erin'', ''frank''],
       e_rest = [(''title'', ''Standup''), (''visibility'', ''public'')] \<rparr>"

definition ex_copy_bob :: Event where
  "ex_copy_bob =
     ex_owner \<lparr> e_id := ''ev2'', createdBy := Some ''acc-bob'', modifiedBy := ''acc-bob'',
                calendar := ''cal-bob-ext'', access := ''reader'' \<rparr>"

definition ex_copy_carol :: Event where
  "ex_copy_carol =
     ex_owner \<lparr> e_id := ''ev3'', createdBy := None, modifiedBy := ''acc-carol'',
                calendar := ''cal-carol'', access := ''reader'' \<rparr>"

definition ex_other :: Event where
  "ex_other =
     ex_owner \<lparr> e_id := ''ev9'', eventId := ''F'', participants := [''alice''] \<rparr>"

definition ex_control :: TriggerControl where
  "ex_control =
     \<lparr> events = [ex_copy_bob, ex_owner, ex_other, ex_copy_carol],
       calendars = ex_calendars,
       accounts = ex_accounts,
       modelDb = ex_accounts,
       docs = (\<lambda>cls. if cls = ''task:class:Task''
                      then [\<lparr> doc_id = ''doc1'', doc_class = ''task:class:Task'' \<rparr>] else []),
       removedMap = (\<lambda>r. if r = ''ev1'' then Some ex_owner
                          else if r = ''ev2'' then Some ex_copy_bob else None) \<rparr>"

text \<open>The store after the owner's event is removed.\<close>

definition ex_control_removed :: TriggerControl where
  "ex_control_removed = ex_control \<lparr> events := [ex_copy_bob, ex_other, ex_copy_carol] \<rparr>"

text \<open>A presenter registry with a presenter for tasks only.\<close>

definition ex_getPresenter :: "Ref \<Rightarrow> Presenter option" where
  "ex_getPresenter cls =
     (if cls = ''task:class:Task'' then Some \<lparr> presenter = ''task:presenter'' \<rparr> else None)"

text \<open>
  Two presenters for every resource: one that only renders, and one that also writes, here
  by emptying the cache of removed documents.
\<close>

definition ex_getResource :: "Ref \<Rightarrow> Doc \<Rightarrow> TriggerControl \<Rightarrow> string \<times> TriggerControl" where
  "ex_getResource r target control = (r @ ''/'' @ doc_id target, control)"

definition ex_getResource_writing ::
  "Ref \<Rightarrow> Doc \<Rightarrow> TriggerControl \<Rightarrow> string \<times> TriggerControl" where
  "ex_getResource_writing r target control =
     (r @ ''/'' @ doc_id target, control \<lparr> removedMap := (\<lambda>x. None) \<rparr>)"

text \<open>
  A storage for the migration: a list of named blobs, newest first, each a list of
  chunks. Every write puts a blob in front, so a storage that is unchanged was not
  written to. A collaborative document is the list of its shared fields.
\<close>

type_synonym ex_storage = "(string \<times> string list) list"

definition ex_host :: "(ex_storage, string list) Host" where
  "ex_host =
     \<lparr> stat = (\<lambda>st n. Inr (case map_of st n of
                              None \<Rightarrow> None
                            | Some chunks \<Rightarrow> Some \<lparr> blob_id = n, blob_size = length (concat chunks) \<rparr>)),
       read_blob = (\<lambda>st n. case map_of st n of
                              None \<Rightarrow> Inl (Error ''not found'')
                            | Some chunks \<Rightarrow> Inr chunks),
       put = (\<lambda>st n data contentType size. (None, (n, [data]) # st)),
       loadCollabYdoc = (\<lambda>st cid. Inr (map_of st (objectId cid @ ''%'' @ objectAttr cid))),
       saveCollabYdoc = (\<lambda>st cid y. (None, (objectId cid @ ''%'' @ objectAttr cid, y) # st)),
       share_has = (\<lambda>y k. k \<in> set y),
       yDocCopyXmlField = (\<lambda>y a b. b # y),
       makeCollabYdocId = (\<lambda>cid. objectId cid @ ''%'' @ objectAttr cid),
       makeDocCollabId = (\<lambda>doc a. \<lparr> objectClass = doc_class doc, objectId = doc_id doc,
                                     objectAttr = a \<rparr>) \<rparr>"

definition ex_db :: Db where
  "ex_db =
     \<lparr> db_collection = (\<lambda>d.
          if d = ''documents''
          then [\<lparr> doc_id = ''cd1'', doc_class = ''documents:class:ControlledDocument'' \<rparr>,
                \<lparr> doc_id = ''cd2'', doc_class = ''documents:class:ControlledDocument'' \<rparr>]
          else if d = ''document''
          then [\<lparr> doc_id = ''w1'', doc_class = ''document:class:Document'' \<rparr>]
          else []),
       db_tx =
         [\<lparr> tx_class = ''core:class:TxCreateDoc'', tx_objectId = ''cd1'',
            tx_objectClass = ''documents:class:ControlledDocument'',
            tx_attributes = [(''title'', JsString ''SOP''),
                             (''content'', JsString ''blob1:HEAD:0'')] \<rparr>,
          \<lparr> tx_class = ''core:class:TxCreateDoc'', tx_objectId = ''cd2'',
            tx_objectClass = ''documents:class:ControlledDocument'',
            tx_attributes = [(''title'', JsString ''Draft'')] \<rparr>] \<rparr>"

definition ex_storage0 :: ex_storage where
  "ex_storage0 = [(''blob1'', [''abc'', ''def'']), (''w1%description'', [''description''])]"

section \<open>Sets and loops\<close>

lemma set_Set_add: "set (Set_add x s) = insert x (set s)"
  by (auto simp: Set_add_def)

lemma distinct_Set_add: "distinct s \<Longrightarrow> distinct (Set_add x s)"
  by (simp add: Set_add_def)

lemma fold_Set_add:
  "set (fold Set_add xs s) = set xs \<union> set s \<and> (distinct s \<longrightarrow> distinct (fold Set_add xs s))"
  by (induction xs arbitrary: s) (auto simp: set_Set_add distinct_Set_add)

lemma set_Set_new: "set (Set_new xs) = set xs"
  by (simp add: Set_new_def fold_Set_add)

lemma distinct_Set_new: "distinct (Set_new xs)"
  by (simp add: Set_new_def fold_Set_add)

lemma creation_loop_Cons:
  "eventForNewParticipants_loop event cals accs (part # parts) res =
     eventForNewParticipants_loop event cals accs parts
       (res @ eventForNewParticipants_loop event cals accs [part] [])"
  by (simp add: Let_def split: option.splits)

lemma creation_loop_acc:
  "eventForNewParticipants_loop event cals accs parts (res @ res') =
     res @ eventForNewParticipants_loop event cals accs parts res'"
proof (induction parts arbitrary: res')
  case Nil
  show ?case by simp
next
  case (Cons part parts)
  have "eventForNewParticipants_loop event cals accs (part # parts) (res @ res') =
        eventForNewParticipants_loop event cals accs parts
          (res @ (res' @ eventForNewParticipants_loop event cals accs [part] []))"
    unfolding creation_loop_Cons [of event cals accs part parts] by simp
  also have "\<dots> = res @ eventForNewParticipants_loop event cals accs parts
          (res' @ eventForNewParticipants_loop event cals accs [part] [])"
    by (rule Cons.IH)
  also have "\<dots> = res @ eventForNewParticipants_loop event cals accs (part # parts) res'"
    unfolding creation_loop_Cons [of event cals accs part parts] by simp
  finally show ?case .
qed

lemma creation_loop_concat:
  "eventForNewParticipants_loop event cals accs parts [] =
     concat (map (\<lambda>part. eventForNewParticipants_loop event cals accs [part] []) parts)"
proof (induction parts)
  case Nil
  show ?case by simp
next
  case (Cons part parts)
  have "eventForNewParticipants_loop event cals accs (part # parts) [] =
        eventForNewParticipants_loop event cals accs parts
          (eventForNewParticipants_loop event cals accs [part] [] @ [])"
    unfolding creation_loop_Cons [of event cals accs part parts] by simp
  also have "\<dots> = eventForNewParticipants_loop event cals accs [part] []
                   @ eventForNewParticipants_loop event cals accs parts []"
    by (rule creation_loop_acc)
  finally show ?case
    unfolding Cons.IH by simp
qed

lemma create_loop_same:
  "onEventCreate_loop event cals accs parts res =
     eventForNewParticipants_loop event cals accs parts res"
proof (induction parts arbitrary: res)
  case Nil
  show ?case by simp
next
  case (Cons part parts)
  show ?case
    by (simp only: onEventCreate_loop.simps eventForNewParticipants_loop.simps Cons.IH)
qed

lemma update_loop_acc:
  "onEventUpdate_loop event otherOps cals control evs (res @ res') nps =
     (res @ fst (onEventUpdate_loop event otherOps cals control evs res' nps),
      snd (onEventUpdate_loop event otherOps cals control evs res' nps))"
proof (induction evs arbitrary: res' nps)
  case Nil
  show ?case by simp
next
  case (Cons ev evs)
  show ?case
  proof (cases "e_id ev = e_id event")
    case True
    then show ?thesis by (simp add: Cons.IH)
  next
    case False
    show ?thesis
    proof (cases "getEventPerson ev cals control")
      case None
      with False show ?thesis
        using Cons.IH [of "res' @ [_]"] by (simp add: Let_def)
    next
      case (Some holder)
      with False show ?thesis
        using Cons.IH [of "res' @ [_]"] by (simp add: Let_def)
    qed
  qed
qed

lemma update_loop_single:
  "onEventUpdate_loop event otherOps cals control evs [t] nps =
     (t # fst (onEventUpdate_loop event otherOps cals control evs [] nps),
      snd (onEventUpdate_loop event otherOps cals control evs [] nps))"
  using update_loop_acc [of event otherOps cals control evs "[t]" "[]" nps] by simp

lemma update_loop_fst:
  "fst (onEventUpdate_loop event otherOps cals control evs [] nps) =
     map (\<lambda>ev. createTxCollectionCUD (attachedToClass ev) (attachedTo ev) (space ev)
                    (collection ev)
                    (case getEventPerson ev cals control of
                       None \<Rightarrow> createTxRemoveDoc (e_class ev) (space ev) (e_id ev)
                     | Some holder \<Rightarrow>
                         if holder \<in> set (participants event)
                         then createTxUpdateDoc (e_class ev) (space ev) (e_id ev) otherOps
                         else createTxRemoveDoc (e_class ev) (space ev) (e_id ev)) None)
              (filter (\<lambda>ev. e_id ev \<noteq> e_id event) evs)"
proof (induction evs arbitrary: nps)
  case Nil
  show ?case by simp
next
  case (Cons ev evs)
  show ?case
  proof (cases "e_id ev = e_id event")
    case True
    then show ?thesis by (simp add: Cons.IH)
  next
    case False
    show ?thesis
    proof (cases "getEventPerson ev cals control")
      case None
      with False show ?thesis
        by (simp add: Let_def update_loop_single Cons.IH)
    next
      case (Some holder)
      with False show ?thesis
        by (simp add: Let_def update_loop_single Cons.IH)
    qed
  qed
qed

lemma update_loop_snd:
  "snd (onEventUpdate_loop event otherOps cals control evs res nps) =
      filter (\<lambda>p. p \<in> set (participants event) \<longrightarrow>
                   (\<forall>ev \<in> set (filter (\<lambda>ev. e_id ev \<noteq> e_id event) evs).
                       getEventPerson ev cals control \<noteq> Some p)) nps"
proof (induction evs arbitrary: res nps)
  case Nil
  show ?case by simp
next
  case (Cons ev evs)
  show ?case
  proof (cases "e_id ev = e_id event")
    case True
    then show ?thesis by (simp add: Cons.IH)
  next
    case False
    show ?thesis
    proof (cases "getEventPerson ev cals control")
      case None
      with False show ?thesis
        by (simp add: Let_def Cons.IH)
    next
      case (Some holder)
      with False show ?thesis
        by (auto simp add: Let_def Cons.IH Set_delete_def intro!: filter_cong)
    qed
  qed
qed

lemma eventForNewParticipants_Nil: "eventForNewParticipants event [] cals control = []"
  by (simp add: eventForNewParticipants_def)

lemma filter_Set_new_participants:
  "filter (\<lambda>p. p \<in> set (participants event) \<longrightarrow> Q p) (Set_new (participants event)) =
   filter Q (Set_new (participants event))"
  by (rule filter_cong) (simp_all add: set_Set_new)

lemma onEventUpdate_eq:
  assumes ops: "otherOps = filter (\<lambda>(k, v). k \<noteq> ''visibility'') (operations ctx)"
      "otherOps \<noteq> []"
    and ev: "find (\<lambda>e. e_id e = u_objectId ctx) (events control) = Some event"
      "access event = ''owner''"
    and sib: "siblings = filter (\<lambda>e. e_id e \<noteq> e_id event)
                          (filter (\<lambda>e. eventId e = eventId event) (events control))"
    and cals: "cals = filter (\<lambda>c. \<not> hidden c) (calendars control)"
  shows "onEventUpdate ctx control =
     map (\<lambda>ev. createTxCollectionCUD (attachedToClass ev) (attachedTo ev) (space ev)
                    (collection ev)
                    (case getEventPerson ev cals control of
                       None \<Rightarrow> createTxRemoveDoc (e_class ev) (space ev) (e_id ev)
                     | Some holder \<Rightarrow>
                         if holder \<in> set (participants event)
                         then createTxUpdateDoc (e_class ev) (space ev) (e_id ev) otherOps
                         else createTxRemoveDoc (e_class ev) (space ev) (e_id ev)) None)
         siblings
     @ eventForNewParticipants event
         (filter (\<lambda>p. \<forall>ev \<in> set siblings. getEventPerson ev cals control \<noteq> Some p)
            (Set_new (participants event)))
         cals control"
proof -
  let ?evs = "filter (\<lambda>e. eventId e = eventId event) (events control)"
  let ?loop = "onEventUpdate_loop event otherOps cals control ?evs [] (Set_new (participants event))"
  have unfold: "onEventUpdate ctx control =
      (if length (snd ?loop) = 0 then fst ?loop
       else fst ?loop @ eventForNewParticipants event (snd ?loop) cals control)"
    using ops ev cals by (simp add: onEventUpdate_def Let_def case_prod_beta)
  have "onEventUpdate ctx control =
      fst ?loop @ eventForNewParticipants event (snd ?loop) cals control"
    unfolding unfold by (simp add: eventForNewParticipants_Nil)
  then show ?thesis
    unfolding update_loop_fst update_loop_snd sib [symmetric] filter_Set_new_participants .
qed

lemma creation_loop_single:
  "eventForNewParticipants_loop event cals accs [part] [] =
     (case find (\<lambda>a. person a = part) accs of
        None \<Rightarrow> []
      | Some acc \<Rightarrow>
          if pa_id acc = nullish (createdBy event) (modifiedBy event) then []
          else (case getCalendar cals (pa_id acc) of
                  None \<Rightarrow> []
                | Some cal \<Rightarrow>
                    [createTxCollectionCUD (attachedToClass event) (attachedTo event)
                       (space event) (collection event)
                       (createTxCreateDoc (e_class event) (space event)
                          (EventAttrs ((attr event)\<lparr>d_calendar := cal, d_access := ''reader''\<rparr>))
                          None (Some (pa_id acc)))
                       (Some (pa_id acc))]))"
  by (simp add: Let_def split: option.splits)

lemma creation_loop_map_filter:
  "eventForNewParticipants_loop event cals accs parts [] =
     List.map_filter (\<lambda>part.
       case find (\<lambda>a. person a = part) accs of
         None \<Rightarrow> None
       | Some acc \<Rightarrow>
           if pa_id acc = nullish (createdBy event) (modifiedBy event) then None
           else (case getCalendar cals (pa_id acc) of
                   None \<Rightarrow> None
                 | Some cal \<Rightarrow>
                     Some (createTxCollectionCUD (attachedToClass event) (attachedTo event)
                       (space event) (collection event)
                       (createTxCreateDoc (e_class event) (space event)
                          (EventAttrs ((attr event)\<lparr>d_calendar := cal, d_access := ''reader''\<rparr>))
                          None (Some (pa_id acc)))
                       (Some (pa_id acc))))) parts"
proof (induction parts)
  case Nil
  show ?case by (simp add: List.map_filter_simps)
next
  case (Cons part parts)
  have "eventForNewParticipants_loop event cals accs (part # parts) [] =
        eventForNewParticipants_loop event cals accs [part] []
          @ eventForNewParticipants_loop event cals accs parts []"
    using creation_loop_concat [of event cals accs "part # parts"]
          creation_loop_concat [of event cals accs parts]
    by simp
  then show ?case
    unfolding Cons.IH creation_loop_single
    by (simp add: List.map_filter_simps split: option.splits)
qed

lemma creation_loop_isCreation:
  "list_all (\<lambda>t. isCreation t \<and> txObjectId t = None)
     (eventForNewParticipants_loop event cals accs parts [])"
  unfolding creation_loop_concat [of event cals accs parts]
  by (induction parts) (simp_all add: creation_loop_single split: option.splits)

lemma distinct_filter_eq:
  "distinct (map f xs) \<Longrightarrow> x \<in> set xs \<Longrightarrow> filter (\<lambda>y. f y = f x) xs = [x]"
proof (induction xs)
  case Nil
  then show ?case by simp
next
  case (Cons a xs)
  show ?case
  proof (cases "a = x")
    case True
    with Cons.prems(1) have "filter (\<lambda>y. f y = f x) xs = []"
      unfolding filter_empty_conv by (auto simp: image_iff)
    with True show ?thesis by simp
  next
    case False
    with Cons.prems have "x \<in> set xs" "f a \<noteq> f x" "distinct (map f xs)"
      by (auto simp: image_iff)
    with Cons.IH show ?thesis by simp
  qed
qed

lemma wiki_loop_dryRun:
  "dryRun params \<Longrightarrow>
   snd (restoreWikiContentMongo_loop host params ds p r st) = st
   \<and> restoreWikiContentMongo_loop (host\<lparr>put := put', saveCollabYdoc := save'\<rparr>) params ds p r st =
       restoreWikiContentMongo_loop host params ds p r st"
proof (induction ds arbitrary: p r)
  case Nil
  show ?case by simp
next
  case (Cons doc ds)
  from Cons.prems Cons.IH [OF Cons.prems] show ?case
    by (simp add: Let_def split: sum.splits option.splits)
qed

lemma forDoc_dryRun:
  "dryRun params \<Longrightarrow>
   snd (restoreControlledDocContentForDoc host db params doc attribute st) = st
   \<and> restoreControlledDocContentForDoc (host\<lparr>put := put', saveCollabYdoc := save'\<rparr>) db params doc
        attribute st =
       restoreControlledDocContentForDoc host db params doc attribute st"
  by (simp add: restoreControlledDocContentForDoc_def Let_def
      split: sum.splits option.splits JsValue.splits)

lemma controlled_loop_dryRun:
  "dryRun params \<Longrightarrow>
   snd (restoreControlledDocContentMongo_loop host db params ds p r st) = st
   \<and> restoreControlledDocContentMongo_loop (host\<lparr>put := put', saveCollabYdoc := save'\<rparr>) db params
        ds p r st =
       restoreControlledDocContentMongo_loop host db params ds p r st"
proof (induction ds arbitrary: p r)
  case Nil
  show ?case by simp
next
  case (Cons doc ds)
  obtain res st' where step: "restoreControlledDocContentForDoc host db params doc ''content'' st
      = (res, st')"
    by (cases "restoreControlledDocContentForDoc host db params doc ''content'' st")
  with forDoc_dryRun [OF Cons.prems, where host = host and db = db and doc = doc
      and attribute = "''content''" and st = st and put' = put' and save' = save']
  have same: "st' = st"
    and step': "restoreControlledDocContentForDoc (host\<lparr>put := put', saveCollabYdoc := save'\<rparr>)
        db params doc ''content'' st = (res, st)"
    by simp_all
  show ?case
  proof (cases res)
    case (Inl err)
    with step step' same show ?thesis by simp
  next
    case (Inr restored)
    with step step' same Cons.IH [OF Cons.prems] show ?thesis by simp
  qed
qed

lemmas ex_defs = ex_control_def ex_owner_def ex_copy_bob_def ex_copy_carol_def ex_other_def
  ex_calendars_def ex_accounts_def

section \<open>Properties of the calendar triggers\<close>

text \<open>
  C1. An update of an owner's event that changes a field other than \<^verbatim>\<open>visibility\<close>.
  Let \<open>siblings\<close> be the other events of the store with the same \<^verbatim>\<open>eventId\<close>, in
  store order, and \<open>copyTx ev\<close> the transaction for a copy: wrapped for the record the
  copy is attached to, an update with the same operations without \<^verbatim>\<open>visibility\<close> when
  the holder of the copy resolves to a participant of the owner's event, a removal when
  the holder does not resolve or is no participant. The transactions emitted start with
  \<open>copyTx\<close> of each sibling, one each and in order; whatever follows is a creation.
  When the ids of the siblings are distinct, the only transaction acting on a sibling is
  its \<open>copyTx\<close>: one update or one removal, never both.
\<close>

theorem onEventUpdate_existing_copies:
  assumes ops: "otherOps = filter (\<lambda>(k, v). k \<noteq> ''visibility'') (operations ctx)"
      "otherOps \<noteq> []"
    and ev: "find (\<lambda>e. e_id e = u_objectId ctx) (events control) = Some event"
      "access event = ''owner''"
    and sib: "siblings = filter (\<lambda>e. e_id e \<noteq> e_id event)
                          (filter (\<lambda>e. eventId e = eventId event) (events control))"
    and cals: "cals = filter (\<lambda>c. \<not> hidden c) (calendars control)"
    and tx: "copyTx = (\<lambda>ev. createTxCollectionCUD (attachedToClass ev) (attachedTo ev) (space ev)
                    (collection ev)
                    (case getEventPerson ev cals control of
                       None \<Rightarrow> createTxRemoveDoc (e_class ev) (space ev) (e_id ev)
                     | Some holder \<Rightarrow>
                         if holder \<in> set (participants event)
                         then createTxUpdateDoc (e_class ev) (space ev) (e_id ev) otherOps
                         else createTxRemoveDoc (e_class ev) (space ev) (e_id ev)) None)"
  shows "take (length siblings) (onEventUpdate ctx control) = map copyTx siblings
    \<and> list_all isCreation (drop (length siblings) (onEventUpdate ctx control))
    \<and> (distinct (map e_id siblings) \<longrightarrow>
         (\<forall>ev \<in> set siblings.
            filter (\<lambda>t. txObjectId t = Some (e_id ev)) (onEventUpdate ctx control) = [copyTx ev]))"
proof -
  let ?new = "eventForNewParticipants event
         (filter (\<lambda>p. \<forall>ev \<in> set siblings. getEventPerson ev cals control \<noteq> Some p)
            (Set_new (participants event))) cals control"
  have eq: "onEventUpdate ctx control = map copyTx siblings @ ?new"
    unfolding tx by (rule onEventUpdate_eq [OF ops ev sib cals])
  have new: "list_all (\<lambda>t. isCreation t \<and> txObjectId t = None) ?new"
    unfolding eventForNewParticipants_def Let_def by (rule creation_loop_isCreation)
  have target: "txObjectId (copyTx ev) = Some (e_id ev)" for ev
    unfolding tx by (simp split: option.splits)
  have first: "take (length siblings) (onEventUpdate ctx control) = map copyTx siblings"
    unfolding eq by simp
  have rest: "list_all isCreation (drop (length siblings) (onEventUpdate ctx control))"
    unfolding eq using new by (simp add: list_all_iff)
  have one: "filter (\<lambda>t. txObjectId t = Some (e_id ev)) (onEventUpdate ctx control) = [copyTx ev]"
    if d: "distinct (map e_id siblings)" and m: "ev \<in> set siblings" for ev
  proof -
    have "filter (\<lambda>t. txObjectId t = Some (e_id ev)) ?new = []"
      unfolding filter_empty_conv using new by (auto simp: list_all_iff)
    moreover have "filter (\<lambda>t. txObjectId t = Some (e_id ev)) (map copyTx siblings) =
        map copyTx (filter (\<lambda>y. e_id y = e_id ev) siblings)"
      by (simp add: filter_map comp_def target)
    ultimately show ?thesis
      unfolding eq using distinct_filter_eq [OF d m] by simp
  qed
  from first rest one show ?thesis by blast
qed

theorem onEventUpdate_existing_copies_witness:
  "find (\<lambda>e. e_id e = ''ev1'') (events ex_control) = Some ex_owner
   \<and> access ex_owner = ''owner''
   \<and> take (length [ex_copy_bob, ex_copy_carol])
        (onEventUpdate
           \<lparr> u_objectId = ''ev1'',
             operations = [(''title'', ''Retro''), (''visibility'', ''private'')] \<rparr> ex_control) =
       [createTxCollectionCUD ''task:class:Task'' ''doc1'' ''calendar:space:Calendar'' ''events''
          (createTxUpdateDoc ''calendar:class:Event'' ''calendar:space:Calendar'' ''ev2''
             [(''title'', ''Retro'')]) None,
        createTxCollectionCUD ''task:class:Task'' ''doc1'' ''calendar:space:Calendar'' ''events''
          (createTxRemoveDoc ''calendar:class:Event'' ''calendar:space:Calendar'' ''ev3'') None]
   \<and> list_all isCreation
        (drop (length [ex_copy_bob, ex_copy_carol])
           (onEventUpdate
              \<lparr> u_objectId = ''ev1'',
                operations = [(''title'', ''Retro''), (''visibility'', ''private'')] \<rparr>
              ex_control))
   \<and> filter (\<lambda>t. txObjectId t = Some ''ev2'')
        (onEventUpdate
           \<lparr> u_objectId = ''ev1'',
             operations = [(''title'', ''Retro''), (''visibility'', ''private'')] \<rparr> ex_control) =
       [createTxCollectionCUD ''task:class:Task'' ''doc1'' ''calendar:space:Calendar'' ''events''
          (createTxUpdateDoc ''calendar:class:Event'' ''calendar:space:Calendar'' ''ev2''
             [(''title'', ''Retro'')]) None]
   \<and> filter (\<lambda>t. txObjectId t = Some ''ev3'')
        (onEventUpdate
           \<lparr> u_objectId = ''ev1'',
             operations = [(''title'', ''Retro''), (''visibility'', ''private'')] \<rparr> ex_control) =
       [createTxCollectionCUD ''task:class:Task'' ''doc1'' ''calendar:space:Calendar'' ''events''
          (createTxRemoveDoc ''calendar:class:Event'' ''calendar:space:Calendar'' ''ev3'') None]"
proof -
  let ?ctx = "\<lparr> u_objectId = ''ev1'',
                operations = [(''title'', ''Retro''), (''visibility'', ''private'')] \<rparr>"
  have ops: "[(''title'', ''Retro'')] = filter (\<lambda>(k, v). k \<noteq> ''visibility'') (operations ?ctx)"
    by simp
  have ne: "[(''title'', ''Retro'')] \<noteq> []"
    by simp
  have ev: "find (\<lambda>e. e_id e = u_objectId ?ctx) (events ex_control) = Some ex_owner"
    by (simp add: ex_defs)
  have own: "access ex_owner = ''owner''"
    by (simp add: ex_owner_def)
  have sib: "[ex_copy_bob, ex_copy_carol] =
      filter (\<lambda>e. e_id e \<noteq> e_id ex_owner)
        (filter (\<lambda>e. eventId e = eventId ex_owner) (events ex_control))"
    by (simp add: ex_defs)
  note facts = onEventUpdate_existing_copies [OF ops ne ev own sib refl refl]
  show ?thesis
    using facts ev own
    by (simp add: ex_defs getEventPerson_def nullish_def)
qed

text \<open>
  C2. The creation of an event with access \<^verbatim>\<open>owner\<close>. \<open>copy part\<close> is the
  transaction for a participant: none when no account has the participant as its person,
  none when that account is the creator of the event, none when no calendar is selected
  for the account; otherwise the wrapped creation, for the class and space of the event
  and attached where the event is attached, both the creation and its wrapper attributed
  to the account. The data created are the fields of the owner's event other than its
  class, its space and the three fields of the attachment, each with the owner's value
  (its id, creator, modifier, event id, participants and remaining attributes), but for
  the calendar, which is the one selected for the account, and the access, which is
  \<^verbatim>\<open>reader\<close>. The handler emits \<open>copy part\<close> for the participants that have one, in
  order; these are the participants without those that have no account, that resolve to
  the creator, or that have no calendar.
\<close>

theorem onEventCreate_reader_copies:
  assumes ev: "event = createDoc2Doc ctx" "access event = ''owner''"
    and cals: "cals = filter (\<lambda>c. \<not> hidden c) (calendars control)"
    and accs: "accs = filter (\<lambda>a. person a \<in> set (participants event)) (accounts control)"
    and copy: "copy = (\<lambda>part.
       case find (\<lambda>a. person a = part) accs of
         None \<Rightarrow> None
       | Some acc \<Rightarrow>
           if pa_id acc = nullish (createdBy event) (modifiedBy event) then None
           else (case getCalendar cals (pa_id acc) of
                   None \<Rightarrow> None
                 | Some cal \<Rightarrow>
                     Some (createTxCollectionCUD (attachedToClass event) (attachedTo event)
                       (space event) (collection event)
                       (createTxCreateDoc (e_class event) (space event)
                          (EventAttrs
                             \<lparr> d_id = e_id event, d_createdBy = createdBy event,
                               d_modifiedBy = modifiedBy event, d_eventId = eventId event,
                               d_calendar = cal, d_access = ''reader'',
                               d_participants = participants event,
                               d_rest = e_rest event \<rparr>)
                          None (Some (pa_id acc)))
                       (Some (pa_id acc)))))"
  shows "onEventCreate createDoc2Doc ctx control = List.map_filter copy (participants event)
    \<and> {part \<in> set (participants event). copy part \<noteq> None} =
        set (participants event)
          - {part. find (\<lambda>a. person a = part) accs = None}
          - {part. \<exists>acc. find (\<lambda>a. person a = part) accs = Some acc
                       \<and> pa_id acc = nullish (createdBy event) (modifiedBy event)}
          - {part. \<exists>acc. find (\<lambda>a. person a = part) accs = Some acc
                       \<and> getCalendar cals (pa_id acc) = None}"
proof -
  have data: "(attr event) \<lparr> d_calendar := cal, d_access := ''reader'' \<rparr> =
      \<lparr> d_id = e_id event, d_createdBy = createdBy event, d_modifiedBy = modifiedBy event,
        d_eventId = eventId event, d_calendar = cal, d_access = ''reader'',
        d_participants = participants event, d_rest = e_rest event \<rparr>" for cal
    by (simp add: attr_def)
  have "onEventCreate createDoc2Doc ctx control =
      eventForNewParticipants_loop event cals accs (participants event) []"
    using ev cals accs by (simp add: onEventCreate_def Let_def create_loop_same)
  then have first: "onEventCreate createDoc2Doc ctx control =
      List.map_filter copy (participants event)"
    unfolding copy creation_loop_map_filter data .
  have second: "{part \<in> set (participants event). copy part \<noteq> None} =
        set (participants event)
          - {part. find (\<lambda>a. person a = part) accs = None}
          - {part. \<exists>acc. find (\<lambda>a. person a = part) accs = Some acc
                       \<and> pa_id acc = nullish (createdBy event) (modifiedBy event)}
          - {part. \<exists>acc. find (\<lambda>a. person a = part) accs = Some acc
                       \<and> getCalendar cals (pa_id acc) = None}"
    unfolding copy by (auto split: option.splits if_splits)
  from first second show ?thesis by (rule conjI)
qed

theorem onEventCreate_reader_copies_witness:
  "access ex_owner = ''owner''
   \<and> onEventCreate (\<lambda>c. c) ex_owner ex_control =
       [createTxCollectionCUD ''task:class:Task'' ''doc1'' ''calendar:space:Calendar'' ''events''
          (createTxCreateDoc ''calendar:class:Event'' ''calendar:space:Calendar''
             (EventAttrs
                \<lparr> d_id = ''ev1'', d_createdBy = Some ''acc-alice'', d_modifiedBy = ''acc-alice'',
                  d_eventId = ''E'', d_calendar = ''cal-bob-ext'', d_access = ''reader'',
                  d_participants = [''alice'', ''bob'', ''dave'', ''erin'', ''frank''],
                  d_rest = [(''title'', ''Standup''), (''visibility'', ''public'')] \<rparr>)
             None (Some ''acc-bob''))
          (Some ''acc-bob''),
        createTxCollectionCUD ''task:class:Task'' ''doc1'' ''calendar:space:Calendar'' ''events''
          (createTxCreateDoc ''calendar:class:Event'' ''calendar:space:Calendar''
             (EventAttrs
                \<lparr> d_id = ''ev1'', d_createdBy = Some ''acc-alice'', d_modifiedBy = ''acc-alice'',
                  d_eventId = ''E'', d_calendar = ''cal-erin'', d_access = ''reader'',
                  d_participants = [''alice'', ''bob'', ''dave'', ''erin'', ''frank''],
                  d_rest = [(''title'', ''Standup''), (''visibility'', ''public'')] \<rparr>)
             None (Some ''acc-erin''))
          (Some ''acc-erin'')]"
proof -
  have own: "access ex_owner = ''owner''"
    by (simp add: ex_owner_def)
  note facts = onEventCreate_reader_copies
    [of ex_owner "\<lambda>c. c" ex_owner _ ex_control, OF refl own refl refl refl, THEN conjunct1]
  show ?thesis
    using facts own
    by (simp add: ex_defs List.map_filter_simps getCalendar_def nullish_def)
qed

text \<open>
  C4. An update of an event whose operations name no field other than \<^verbatim>\<open>visibility\<close>
  emits no transaction, whatever the store holds: the access of the event and its
  participants are not even read.
\<close>

theorem onEventUpdate_visibility_only:
  "set (map fst (operations ctx)) \<subseteq> {''visibility''} \<Longrightarrow> onEventUpdate ctx control = []"
proof -
  assume only: "set (map fst (operations ctx)) \<subseteq> {''visibility''}"
  have "filter (\<lambda>(k, v). k \<noteq> ''visibility'') (operations ctx) = []"
    unfolding filter_empty_conv using only by auto
  then show ?thesis
    by (simp add: onEventUpdate_def)
qed

theorem onEventUpdate_visibility_only_witness:
  "set (map fst [(''visibility'', ''private'')]) \<subseteq> {''visibility''}
   \<and> access ex_owner = ''owner''
   \<and> onEventUpdate \<lparr> u_objectId = ''ev1'', operations = [(''visibility'', ''private'')] \<rparr>
         ex_control = []"
  using onEventUpdate_visibility_only
          [of "\<lparr> u_objectId = ''ev1'', operations = [(''visibility'', ''private'')] \<rparr>" ex_control]
  by (simp add: ex_owner_def)

text \<open>
  C7. The creation of an event whose access is not \<^verbatim>\<open>owner\<close> emits no transaction;
  an update emits none when the store has no event with the updated id, and none when
  that event's access is not \<^verbatim>\<open>owner\<close>.
\<close>

theorem triggers_skip_without_owner:
  "(access (createDoc2Doc c) \<noteq> ''owner'' \<longrightarrow> onEventCreate createDoc2Doc c control = [])
   \<and> (find (\<lambda>e. e_id e = u_objectId u) (events control) = None \<longrightarrow>
        onEventUpdate u control = [])
   \<and> (find (\<lambda>e. e_id e = u_objectId u) (events control) = Some event \<and> access event \<noteq> ''owner''
        \<longrightarrow> onEventUpdate u control = [])"
  by (simp add: onEventCreate_def onEventUpdate_def Let_def)

theorem triggers_skip_without_owner_witness:
  "access ex_copy_bob \<noteq> ''owner''
   \<and> onEventCreate (\<lambda>c. c) ex_copy_bob ex_control = []
   \<and> find (\<lambda>e. e_id e = ''ev7'') (events ex_control) = None
   \<and> onEventUpdate \<lparr> u_objectId = ''ev7'', operations = [(''title'', ''Retro'')] \<rparr> ex_control = []
   \<and> find (\<lambda>e. e_id e = ''ev2'') (events ex_control) = Some ex_copy_bob
   \<and> onEventUpdate \<lparr> u_objectId = ''ev2'', operations = [(''title'', ''Retro'')] \<rparr> ex_control = []"
  using triggers_skip_without_owner
          [of "\<lambda>c. c" ex_copy_bob ex_control
              "\<lparr> u_objectId = ''ev7'', operations = [(''title'', ''Retro'')] \<rparr>"]
        triggers_skip_without_owner
          [of "\<lambda>c. c" ex_copy_bob ex_control
              "\<lparr> u_objectId = ''ev2'', operations = [(''title'', ''Retro'')] \<rparr>" ex_copy_bob]
  by (simp add: ex_control_def ex_copy_bob_def ex_owner_def ex_other_def ex_copy_carol_def)

text \<open>
  C3. When the removed event is in the cache of removed documents: if its access is
  \<^verbatim>\<open>owner\<close>, the trigger emits one removal per event of the store with the same
  \<^verbatim>\<open>eventId\<close>, in the order of the store, each for the class, space and id of that
  copy; otherwise it emits nothing.
\<close>

theorem onRemoveEvent_cascade:
  "removedMap control (r_objectId ctx) = Some removed \<Longrightarrow>
   onRemoveEvent ctx control =
     (if access removed = ''owner''
      then map (\<lambda>cur. createTxRemoveDoc (e_class cur) (space cur) (e_id cur))
             (filter (\<lambda>e. eventId e = eventId removed) (events control))
      else [])"
  by (simp add: onRemoveEvent_def)

theorem onRemoveEvent_cascade_witness:
  "removedMap ex_control_removed ''ev1'' = Some ex_owner
   \<and> onRemoveEvent \<lparr> r_objectId = ''ev1'' \<rparr> ex_control_removed =
       [createTxRemoveDoc ''calendar:class:Event'' ''calendar:space:Calendar'' ''ev2'',
        createTxRemoveDoc ''calendar:class:Event'' ''calendar:space:Calendar'' ''ev3'']
   \<and> removedMap ex_control_removed ''ev2'' = Some ex_copy_bob
   \<and> onRemoveEvent \<lparr> r_objectId = ''ev2'' \<rparr> ex_control_removed = []"
  using onRemoveEvent_cascade [of ex_control_removed "\<lparr> r_objectId = ''ev1'' \<rparr>" ex_owner]
        onRemoveEvent_cascade [of ex_control_removed "\<lparr> r_objectId = ''ev2'' \<rparr>" ex_copy_bob]
  by (simp add: ex_control_removed_def ex_control_def ex_copy_bob_def ex_owner_def ex_other_def
        ex_copy_carol_def)

text \<open>
  C8. The account trigger emits exactly one transaction: the creation of a calendar
  of the calendar class and space, named after the email of the account, not hidden,
  with public visibility, with the object id \<^verbatim>\<open>`${user._id}_calendar`\<close> and modified by
  the account. The id is a function of the account id alone, and distinct accounts get
  distinct ids.
\<close>

theorem OnPersonAccountCreate_calendar:
  "OnPersonAccountCreate extractTx createDoc2Doc tx control =
     [createTxCreateDoc calendar_class_Calendar calendar_space_Calendar
        (CalendarAttrs (email (createDoc2Doc (extractTx tx))) False ''public'')
        (Some (calendarRef (pa_id (createDoc2Doc (extractTx tx)))))
        (Some (pa_id (createDoc2Doc (extractTx tx))))]
   \<and> (calendarRef a = calendarRef b) = (a = b)"
  by (simp add: OnPersonAccountCreate_def calendarRef_def Let_def)

text \<open>
  C9. Both presenter helpers return undefined when the record the event is attached to
  is not found, and when no presenter is registered for the class of that record;
  otherwise they return what the registered presenter returns on that record. Neither
  helper writes: when it invokes no presenter the control comes back as it was given, and
  when it invokes one the control comes back exactly as that presenter left it. So with
  presenters that only render, a call of a helper leaves the store as it was, and in no
  case does a helper return a transaction.
\<close>

theorem Reminder_presenters:
  "(find (\<lambda>d. doc_id d = attachedTo event) (docs control (attachedToClass event)) = None \<longrightarrow>
      ReminderHTMLPresenter getHTMLPresenter getResource event control = (None, control)
      \<and> ReminderTextPresenter getTextPresenter getResource event control = (None, control))
   \<and> (find (\<lambda>d. doc_id d = attachedTo event) (docs control (attachedToClass event)) = Some target
        \<longrightarrow>
        (getHTMLPresenter (doc_class target) = None \<longrightarrow>
           ReminderHTMLPresenter getHTMLPresenter getResource event control = (None, control))
        \<and> (getHTMLPresenter (doc_class target) = Some html \<longrightarrow>
             ReminderHTMLPresenter getHTMLPresenter getResource event control =
               (Some (fst (getResource (presenter html) target control)),
                snd (getResource (presenter html) target control)))
        \<and> (getTextPresenter (doc_class target) = None \<longrightarrow>
             ReminderTextPresenter getTextPresenter getResource event control = (None, control))
        \<and> (getTextPresenter (doc_class target) = Some plain \<longrightarrow>
             ReminderTextPresenter getTextPresenter getResource event control =
               (Some (fst (getResource (presenter plain) target control)),
                snd (getResource (presenter plain) target control))))
   \<and> ((\<forall>r d. snd (getResource r d control) = control) \<longrightarrow>
        snd (ReminderHTMLPresenter getHTMLPresenter getResource event control) = control
        \<and> snd (ReminderTextPresenter getTextPresenter getResource event control) = control)"
  by (simp add: ReminderHTMLPresenter_def ReminderTextPresenter_def case_prod_beta
      split: option.splits)

theorem Reminder_presenters_witness:
  "find (\<lambda>d. doc_id d = attachedTo ex_owner) (docs ex_control (attachedToClass ex_owner)) =
     Some \<lparr> doc_id = ''doc1'', doc_class = ''task:class:Task'' \<rparr>
   \<and> ex_getPresenter ''task:class:Task'' = Some \<lparr> presenter = ''task:presenter'' \<rparr>
   \<and> ReminderHTMLPresenter ex_getPresenter ex_getResource ex_owner ex_control =
       (Some ''task:presenter/doc1'', ex_control)
   \<and> ReminderTextPresenter ex_getPresenter ex_getResource ex_owner ex_control =
       (Some ''task:presenter/doc1'', ex_control)
   \<and> ReminderHTMLPresenter ex_getPresenter ex_getResource_writing ex_owner ex_control =
       (Some ''task:presenter/doc1'', ex_control \<lparr> removedMap := (\<lambda>x. None) \<rparr>)
   \<and> ReminderTextPresenter ex_getPresenter ex_getResource_writing ex_owner ex_control =
       (Some ''task:presenter/doc1'', ex_control \<lparr> removedMap := (\<lambda>x. None) \<rparr>)
   \<and> ReminderHTMLPresenter (\<lambda>c. None) ex_getResource_writing ex_owner ex_control =
       (None, ex_control)
   \<and> ReminderTextPresenter (\<lambda>c. None) ex_getResource_writing ex_owner ex_control =
       (None, ex_control)
   \<and> find (\<lambda>d. doc_id d = ''doc2'') (docs ex_control (attachedToClass ex_owner)) = None
   \<and> ReminderHTMLPresenter ex_getPresenter ex_getResource_writing
        (ex_owner \<lparr> attachedTo := ''doc2'' \<rparr>) ex_control = (None, ex_control)
   \<and> ReminderTextPresenter ex_getPresenter ex_getResource_writing
        (ex_owner \<lparr> attachedTo := ''doc2'' \<rparr>) ex_control = (None, ex_control)
   \<and> snd (ReminderHTMLPresenter ex_getPresenter ex_getResource ex_owner ex_control) = ex_control
   \<and> snd (ReminderTextPresenter ex_getPresenter ex_getResource ex_owner ex_control) = ex_control"
proof -
  let ?doc1 = "\<lparr> doc_id = ''doc1'', doc_class = ''task:class:Task'' \<rparr>"
  let ?task = "\<lparr> presenter = ''task:presenter'' \<rparr>"
  have found: "find (\<lambda>d. doc_id d = attachedTo ex_owner)
      (docs ex_control (attachedToClass ex_owner)) = Some ?doc1"
    by (simp add: ex_control_def ex_owner_def)
  have missing: "find (\<lambda>d. doc_id d = attachedTo (ex_owner \<lparr> attachedTo := ''doc2'' \<rparr>))
      (docs ex_control (attachedToClass (ex_owner \<lparr> attachedTo := ''doc2'' \<rparr>))) = None"
    by (simp add: ex_control_def ex_owner_def)
  have registered: "ex_getPresenter (doc_class ?doc1) = Some ?task"
    by (simp add: ex_getPresenter_def)
  have renders: "\<forall>r d. snd (ex_getResource r d ex_control) = ex_control"
    by (simp add: ex_getResource_def)
  note rendering = Reminder_presenters
    [where event = ex_owner and control = ex_control and getHTMLPresenter = ex_getPresenter
       and getTextPresenter = ex_getPresenter and getResource = ex_getResource
       and target = ?doc1 and html = ?task and plain = ?task]
  note writing = Reminder_presenters
    [where event = ex_owner and control = ex_control and getHTMLPresenter = ex_getPresenter
       and getTextPresenter = ex_getPresenter and getResource = ex_getResource_writing
       and target = ?doc1 and html = ?task and plain = ?task]
  note unregistered = Reminder_presenters
    [where event = ex_owner and control = ex_control and getHTMLPresenter = "\<lambda>c. None"
       and getTextPresenter = "\<lambda>c. None" and getResource = ex_getResource_writing
       and target = ?doc1]
  note unattached = Reminder_presenters
    [where event = "ex_owner \<lparr> attachedTo := ''doc2'' \<rparr>" and control = ex_control
       and getHTMLPresenter = ex_getPresenter and getTextPresenter = ex_getPresenter
       and getResource = ex_getResource_writing]
  have a: "ReminderHTMLPresenter ex_getPresenter ex_getResource ex_owner ex_control =
        (Some ''task:presenter/doc1'', ex_control)
      \<and> ReminderTextPresenter ex_getPresenter ex_getResource ex_owner ex_control =
        (Some ''task:presenter/doc1'', ex_control)"
    using rendering found registered by (simp add: ex_getResource_def)
  have b: "ReminderHTMLPresenter ex_getPresenter ex_getResource_writing ex_owner ex_control =
        (Some ''task:presenter/doc1'', ex_control \<lparr> removedMap := (\<lambda>x. None) \<rparr>)
      \<and> ReminderTextPresenter ex_getPresenter ex_getResource_writing ex_owner ex_control =
        (Some ''task:presenter/doc1'', ex_control \<lparr> removedMap := (\<lambda>x. None) \<rparr>)"
    using writing found registered by (simp add: ex_getResource_writing_def)
  have c: "ReminderHTMLPresenter (\<lambda>c. None) ex_getResource_writing ex_owner ex_control =
        (None, ex_control)
      \<and> ReminderTextPresenter (\<lambda>c. None) ex_getResource_writing ex_owner ex_control =
        (None, ex_control)"
    using unregistered found by simp
  have d: "ReminderHTMLPresenter ex_getPresenter ex_getResource_writing
        (ex_owner \<lparr> attachedTo := ''doc2'' \<rparr>) ex_control = (None, ex_control)
      \<and> ReminderTextPresenter ex_getPresenter ex_getResource_writing
        (ex_owner \<lparr> attachedTo := ''doc2'' \<rparr>) ex_control = (None, ex_control)"
    using unattached missing by simp
  have e: "snd (ReminderHTMLPresenter ex_getPresenter ex_getResource ex_owner ex_control) =
        ex_control
      \<and> snd (ReminderTextPresenter ex_getPresenter ex_getResource ex_owner ex_control) =
        ex_control"
    using rendering renders by simp
  have f: "find (\<lambda>d. doc_id d = ''doc2'') (docs ex_control (attachedToClass ex_owner)) = None"
    by (simp add: ex_control_def ex_owner_def)
  from found registered a b c d e f show ?thesis
    by (simp add: ex_getPresenter_def)
qed

text \<open>
  C5, as the claim states it, fails: a calendar created by one account and last modified
  by another is not considered for the modifier. Here Bob last modified the only calendar,
  which Alice created, and no calendar is selected for Bob.
\<close>

theorem getCalendar_modifier_counterexample:
  "c_modifiedBy \<lparr> c_id = ''cal-shared'', c_createdBy = Some ''acc-alice'',
                  c_modifiedBy = ''acc-bob'', hidden = False, c_default = None \<rparr> = ''acc-bob''
   \<and> getCalendar [\<lparr> c_id = ''cal-shared'', c_createdBy = Some ''acc-alice'',
                     c_modifiedBy = ''acc-bob'', hidden = False, c_default = None \<rparr>]
        ''acc-bob'' = None"
  by (simp add: getCalendar_def nullish_def)

text \<open>
  C5, amended. The author of a calendar is its \<^verbatim>\<open>createdBy\<close>, or its
  \<^verbatim>\<open>modifiedBy\<close> when it has no \<^verbatim>\<open>createdBy\<close>. Selection for an account depends
  only on \<open>own\<close>, the calendars of the list whose author is the account, in list order:
  it is the first of them flagged default if there is one, otherwise the first of them,
  and none when there is none. A participant whose account gets no calendar is passed over
  by both creation loops: the result array is unchanged and no error is raised.
\<close>

theorem getCalendar_selection:
  assumes own: "own = filter (\<lambda>c. nullish (c_createdBy c) (c_modifiedBy c) = acc) cals"
  shows "getCalendar cals acc = getCalendar own acc
    \<and> (find (\<lambda>c. c_default c = Some True) own = Some d \<longrightarrow>
         getCalendar cals acc = Some (c_id d))
    \<and> (find (\<lambda>c. c_default c = Some True) own = None \<and> own = c # rest \<longrightarrow>
         getCalendar cals acc = Some (c_id c))
    \<and> (own = [] \<longrightarrow> getCalendar cals acc = None)
    \<and> (getCalendar cals (pa_id a) = None \<and> find (\<lambda>a. person a = part) accs = Some a \<longrightarrow>
         onEventCreate_loop event cals accs (part # parts) res =
           onEventCreate_loop event cals accs parts res
         \<and> eventForNewParticipants_loop event cals accs (part # parts) res =
           eventForNewParticipants_loop event cals accs parts res)"
proof -
  have sel: "getCalendar cals acc =
      (case find (\<lambda>c. c_default c = Some True) own of
         Some c \<Rightarrow> Some (c_id c)
       | None \<Rightarrow> (case own of [] \<Rightarrow> None | c # _ \<Rightarrow> Some (c_id c)))"
    unfolding own by (simp add: getCalendar_def Let_def)
  have "filter (\<lambda>c. nullish (c_createdBy c) (c_modifiedBy c) = acc) own = own"
    unfolding own by simp
  then have same: "getCalendar cals acc = getCalendar own acc"
    unfolding sel by (simp add: getCalendar_def Let_def)
  have default: "find (\<lambda>c. c_default c = Some True) own = Some d \<longrightarrow>
      getCalendar cals acc = Some (c_id d)"
    unfolding sel by simp
  have first: "find (\<lambda>c. c_default c = Some True) own = None \<and> own = c # rest \<longrightarrow>
      getCalendar cals acc = Some (c_id c)"
    unfolding sel by auto
  have none: "own = [] \<longrightarrow> getCalendar cals acc = None"
    unfolding sel by simp
  have skip: "getCalendar cals (pa_id a) = None \<and> find (\<lambda>a. person a = part) accs = Some a \<longrightarrow>
         onEventCreate_loop event cals accs (part # parts) res =
           onEventCreate_loop event cals accs parts res
         \<and> eventForNewParticipants_loop event cals accs (part # parts) res =
           eventForNewParticipants_loop event cals accs parts res"
    by simp
  from same default first none skip show ?thesis by blast
qed

theorem getCalendar_selection_witness:
  "getCalendar ex_calendars ''acc-bob'' = Some ''cal-bob-ext''
   \<and> getCalendar ex_calendars ''acc-erin'' = Some ''cal-erin''
   \<and> getCalendar ex_calendars ''acc-carol'' = Some ''cal-carol''
   \<and> getCalendar ex_calendars ''acc-dave'' = None
   \<and> getCalendar (filter (\<lambda>c. \<not> hidden c) ex_calendars) ''acc-frank'' = None
   \<and> onEventCreate_loop ex_owner (filter (\<lambda>c. \<not> hidden c) ex_calendars) ex_accounts
         [''frank''] [] = []
   \<and> eventForNewParticipants_loop ex_owner (filter (\<lambda>c. \<not> hidden c) ex_calendars)
         ex_accounts [''frank''] [] = []"
proof -
  have bob: "getCalendar ex_calendars ''acc-bob'' = Some ''cal-bob-ext''"
    using getCalendar_selection
          [OF refl, where cals = ex_calendars and acc = "''acc-bob''"
             and d = "\<lparr> c_id = ''cal-bob-ext'', c_createdBy = Some ''acc-bob'',
                       c_modifiedBy = ''acc-bob'', hidden = False, c_default = Some True \<rparr>",
           THEN conjunct2, THEN conjunct1]
    by (simp add: ex_calendars_def nullish_def)
  have erin: "getCalendar ex_calendars ''acc-erin'' = Some ''cal-erin''"
    using getCalendar_selection
          [OF refl, where cals = ex_calendars and acc = "''acc-erin''"
             and c = "\<lparr> c_id = ''cal-erin'', c_createdBy = Some ''acc-erin'',
                       c_modifiedBy = ''acc-erin'', hidden = False, c_default = Some False \<rparr>"
             and rest = "[]",
           THEN conjunct2, THEN conjunct2, THEN conjunct1]
    by (simp add: ex_calendars_def nullish_def)
  have carol: "getCalendar ex_calendars ''acc-carol'' = Some ''cal-carol''"
    using getCalendar_selection
          [OF refl, where cals = ex_calendars and acc = "''acc-carol''"
             and c = "\<lparr> c_id = ''cal-carol'', c_createdBy = None,
                       c_modifiedBy = ''acc-carol'', hidden = False, c_default = None \<rparr>"
             and rest = "[]",
           THEN conjunct2, THEN conjunct2, THEN conjunct1]
    by (simp add: ex_calendars_def nullish_def)
  have dave: "getCalendar ex_calendars ''acc-dave'' = None"
    using getCalendar_selection
          [OF refl, where cals = ex_calendars and acc = "''acc-dave''",
           THEN conjunct2, THEN conjunct2, THEN conjunct2, THEN conjunct1]
    by (simp add: ex_calendars_def nullish_def)
  have frank: "getCalendar (filter (\<lambda>c. \<not> hidden c) ex_calendars) ''acc-frank'' = None"
    using getCalendar_selection
          [OF refl, where cals = "filter (\<lambda>c. \<not> hidden c) ex_calendars"
             and acc = "''acc-frank''",
           THEN conjunct2, THEN conjunct2, THEN conjunct2, THEN conjunct1]
    by (simp add: ex_calendars_def nullish_def)
  have skip: "onEventCreate_loop ex_owner (filter (\<lambda>c. \<not> hidden c) ex_calendars) ex_accounts
         [''frank''] [] = []
      \<and> eventForNewParticipants_loop ex_owner (filter (\<lambda>c. \<not> hidden c) ex_calendars)
         ex_accounts [''frank''] [] = []"
    using frank getCalendar_selection
          [OF refl, where cals = "filter (\<lambda>c. \<not> hidden c) ex_calendars"
             and accs = ex_accounts
             and part = "''frank''" and parts = "[]" and res = "[]" and event = ex_owner
             and a = "\<lparr> pa_id = ''acc-frank'', person = ''frank'',
                       email = ''frank@example.com'' \<rparr>",
           THEN conjunct2, THEN conjunct2, THEN conjunct2, THEN conjunct2]
    by (simp add: ex_accounts_def)
  from bob erin carol dave frank skip show ?thesis by simp
qed

text \<open>
  C6, as the claim states it, fails for an update that changes \<^verbatim>\<open>visibility\<close> only:
  Erin is a participant of the owner's event and holds no copy (the two copies are Bob's
  and Carol's), her account and calendar resolve (the creation logic yields her copy), and
  the update emits nothing.
\<close>

theorem onEventUpdate_new_participants_counterexample:
  "find (\<lambda>e. e_id e = ''ev1'') (events ex_control) = Some ex_owner
   \<and> access ex_owner = ''owner''
   \<and> ''erin'' \<in> set (participants ex_owner)
   \<and> filter (\<lambda>e. e_id e \<noteq> e_id ex_owner)
        (filter (\<lambda>e. eventId e = eventId ex_owner) (events ex_control)) =
       [ex_copy_bob, ex_copy_carol]
   \<and> getEventPerson ex_copy_bob (filter (\<lambda>c. \<not> hidden c) (calendars ex_control)) ex_control =
       Some ''bob''
   \<and> getEventPerson ex_copy_carol (filter (\<lambda>c. \<not> hidden c) (calendars ex_control)) ex_control =
       Some ''carol''
   \<and> eventForNewParticipants ex_owner [''erin'']
        (filter (\<lambda>c. \<not> hidden c) (calendars ex_control)) ex_control =
       [createTxCollectionCUD ''task:class:Task'' ''doc1'' ''calendar:space:Calendar'' ''events''
          (createTxCreateDoc ''calendar:class:Event'' ''calendar:space:Calendar''
             (EventAttrs ((attr ex_owner) \<lparr> d_calendar := ''cal-erin'', d_access := ''reader'' \<rparr>))
             None (Some ''acc-erin''))
          (Some ''acc-erin'')]
   \<and> onEventUpdate \<lparr> u_objectId = ''ev1'', operations = [(''visibility'', ''private'')] \<rparr>
        ex_control = []"
  by (simp add: ex_defs onEventUpdate_def eventForNewParticipants_def getEventPerson_def
      getCalendar_def nullish_def attr_def)

text \<open>
  C6, amended: an update of an owner's event that changes a field other than
  \<^verbatim>\<open>visibility\<close>. After the transactions for the siblings, the handler emits
  \<open>copy part\<close> for each new participant that has one, in order, where \<open>copy\<close> is the
  transaction of event creation: none without an account, none for the creator of the
  event, none without a calendar, otherwise the wrapped creation of a reader copy. The new
  participants are the participants of the owner's event that no sibling's holder resolves
  to, each once. Creating the same event emits \<open>copy part\<close> over all its participants.
\<close>

theorem onEventUpdate_new_participants:
  assumes ops: "otherOps = filter (\<lambda>(k, v). k \<noteq> ''visibility'') (operations ctx)"
      "otherOps \<noteq> []"
    and ev: "find (\<lambda>e. e_id e = u_objectId ctx) (events control) = Some event"
      "access event = ''owner''"
    and sib: "siblings = filter (\<lambda>e. e_id e \<noteq> e_id event)
                          (filter (\<lambda>e. eventId e = eventId event) (events control))"
    and cals: "cals = filter (\<lambda>c. \<not> hidden c) (calendars control)"
    and accs: "accs = filter (\<lambda>a. person a \<in> set (participants event)) (accounts control)"
    and new: "newParticipants =
        filter (\<lambda>p. \<forall>ev \<in> set siblings. getEventPerson ev cals control \<noteq> Some p)
          (Set_new (participants event))"
    and copy: "copy = (\<lambda>part.
       case find (\<lambda>a. person a = part) accs of
         None \<Rightarrow> None
       | Some acc \<Rightarrow>
           if pa_id acc = nullish (createdBy event) (modifiedBy event) then None
           else (case getCalendar cals (pa_id acc) of
                   None \<Rightarrow> None
                 | Some cal \<Rightarrow>
                     Some (createTxCollectionCUD (attachedToClass event) (attachedTo event)
                       (space event) (collection event)
                       (createTxCreateDoc (e_class event) (space event)
                          (EventAttrs ((attr event)\<lparr>d_calendar := cal, d_access := ''reader''\<rparr>))
                          None (Some (pa_id acc)))
                       (Some (pa_id acc)))))"
  shows "drop (length siblings) (onEventUpdate ctx control) = List.map_filter copy newParticipants
    \<and> distinct newParticipants
    \<and> set newParticipants =
        {p \<in> set (participants event).
           \<forall>ev \<in> set siblings. getEventPerson ev cals control \<noteq> Some p}
    \<and> onEventCreate (\<lambda>c. c) event control = List.map_filter copy (participants event)"
proof -
  have "onEventUpdate ctx control =
     map (\<lambda>ev. createTxCollectionCUD (attachedToClass ev) (attachedTo ev) (space ev)
                    (collection ev)
                    (case getEventPerson ev cals control of
                       None \<Rightarrow> createTxRemoveDoc (e_class ev) (space ev) (e_id ev)
                     | Some holder \<Rightarrow>
                         if holder \<in> set (participants event)
                         then createTxUpdateDoc (e_class ev) (space ev) (e_id ev) otherOps
                         else createTxRemoveDoc (e_class ev) (space ev) (e_id ev)) None)
         siblings
     @ eventForNewParticipants event newParticipants cals control"
    unfolding new by (rule onEventUpdate_eq [OF ops ev sib cals])
  then have "drop (length siblings) (onEventUpdate ctx control) =
      eventForNewParticipants event newParticipants cals control"
    by simp
  then have first: "drop (length siblings) (onEventUpdate ctx control) =
      List.map_filter copy newParticipants"
    unfolding copy accs eventForNewParticipants_def Let_def creation_loop_map_filter .
  have second: "distinct newParticipants"
    unfolding new by (simp add: distinct_Set_new)
  have third: "set newParticipants =
        {p \<in> set (participants event).
           \<forall>ev \<in> set siblings. getEventPerson ev cals control \<noteq> Some p}"
    unfolding new by (auto simp: set_Set_new)
  have "onEventCreate (\<lambda>c. c) event control =
      eventForNewParticipants_loop event cals accs (participants event) []"
    using ev cals accs by (simp add: onEventCreate_def Let_def create_loop_same)
  then have fourth: "onEventCreate (\<lambda>c. c) event control =
      List.map_filter copy (participants event)"
    unfolding copy creation_loop_map_filter .
  from first second third fourth show ?thesis by blast
qed

theorem onEventUpdate_new_participants_witness:
  "find (\<lambda>e. e_id e = ''ev1'') (events ex_control) = Some ex_owner
   \<and> access ex_owner = ''owner''
   \<and> drop (length [ex_copy_bob, ex_copy_carol])
        (onEventUpdate
           \<lparr> u_objectId = ''ev1'',
             operations = [(''title'', ''Retro''), (''visibility'', ''private'')] \<rparr> ex_control) =
       [createTxCollectionCUD ''task:class:Task'' ''doc1'' ''calendar:space:Calendar'' ''events''
          (createTxCreateDoc ''calendar:class:Event'' ''calendar:space:Calendar''
             (EventAttrs ((attr ex_owner) \<lparr> d_calendar := ''cal-erin'', d_access := ''reader'' \<rparr>))
             None (Some ''acc-erin''))
          (Some ''acc-erin'')]"
proof -
  let ?ctx = "\<lparr> u_objectId = ''ev1'',
                operations = [(''title'', ''Retro''), (''visibility'', ''private'')] \<rparr>"
  have ops: "[(''title'', ''Retro'')] = filter (\<lambda>(k, v). k \<noteq> ''visibility'') (operations ?ctx)"
    by simp
  have ne: "[(''title'', ''Retro'')] \<noteq> []"
    by simp
  have ev: "find (\<lambda>e. e_id e = u_objectId ?ctx) (events ex_control) = Some ex_owner"
    by (simp add: ex_defs)
  have own: "access ex_owner = ''owner''"
    by (simp add: ex_owner_def)
  have sib: "[ex_copy_bob, ex_copy_carol] =
      filter (\<lambda>e. e_id e \<noteq> e_id ex_owner)
        (filter (\<lambda>e. eventId e = eventId ex_owner) (events ex_control))"
    by (simp add: ex_defs)
  have new: "[''alice'', ''dave'', ''erin'', ''frank''] =
      filter (\<lambda>p. \<forall>ev \<in> set [ex_copy_bob, ex_copy_carol].
                getEventPerson ev (filter (\<lambda>c. \<not> hidden c) (calendars ex_control)) ex_control
                  \<noteq> Some p)
        (Set_new (participants ex_owner))"
    by (simp add: ex_defs getEventPerson_def nullish_def Set_new_def Set_add_def)
  note facts = onEventUpdate_new_participants
    [OF ops ne ev own sib refl refl new refl, THEN conjunct1]
  show ?thesis
    using facts ev own
    by (simp add: ex_defs List.map_filter_simps getCalendar_def nullish_def attr_def)
qed

section \<open>Properties of the content migration\<close>

text \<open>
  C10. With \<^verbatim>\<open>dryRun\<close> set, the three migration functions leave the storage as it
  was, and their results do not depend on what \<^verbatim>\<open>put\<close> and \<^verbatim>\<open>saveCollabYdoc\<close>
  do: neither is called. When the creating transaction of the document has the attribute
  with a colon in it, and the storage has nothing under the new id, the function for one
  document returns true, and the loop goes on with both counters one higher.
\<close>

theorem dryRun_writes_nothing:
  assumes dry: "dryRun params"
  shows "snd (restoreWikiContentMongo host db params st) = st
    \<and> snd (restoreControlledDocContentMongo host db params st) = st
    \<and> snd (restoreControlledDocContentForDoc host db params doc attribute st) = st
    \<and> restoreWikiContentMongo (host\<lparr>put := put', saveCollabYdoc := save'\<rparr>) db params st =
        restoreWikiContentMongo host db params st
    \<and> restoreControlledDocContentMongo (host\<lparr>put := put', saveCollabYdoc := save'\<rparr>) db params st =
        restoreControlledDocContentMongo host db params st
    \<and> restoreControlledDocContentForDoc (host\<lparr>put := put', saveCollabYdoc := save'\<rparr>) db params
         doc attribute st =
        restoreControlledDocContentForDoc host db params doc attribute st
    \<and> (find (\<lambda>t. tx_class t = core_class_TxCreateDoc \<and> tx_objectId t = doc_id doc
                  \<and> tx_objectClass t = doc_class doc) (db_tx db) = Some tx
        \<and> map_of (tx_attributes tx) attribute = Some (JsString content)
        \<and> CHR '':'' \<in> set content
        \<and> stat host st (makeCollabYdocId host (makeDocCollabId host doc attribute)) = Inr None
        \<longrightarrow> restoreControlledDocContentForDoc host db params doc attribute st = (Inr True, st)
            \<and> (attribute = ''content'' \<longrightarrow>
                 restoreControlledDocContentMongo_loop host db params (doc # rest) processedCnt
                   restoredCnt st =
                 restoreControlledDocContentMongo_loop host db params rest (processedCnt + 1)
                   (restoredCnt + 1) st))"
proof -
  note wiki = wiki_loop_dryRun [OF dry, where host = host and p = 0 and r = 0 and st = st
    and put' = put' and save' = save']
  note ctrl = controlled_loop_dryRun [OF dry, where host = host and db = db and p = 0 and r = 0
    and st = st and put' = put' and save' = save']
  note one = forDoc_dryRun [OF dry, where host = host and db = db and doc = doc
    and attribute = attribute and st = st and put' = put' and save' = save']
  have a: "snd (restoreWikiContentMongo host db params st) = st"
    using wiki by (simp add: restoreWikiContentMongo_def)
  have b: "snd (restoreControlledDocContentMongo host db params st) = st"
    using ctrl by (simp add: restoreControlledDocContentMongo_def)
  have c: "snd (restoreControlledDocContentForDoc host db params doc attribute st) = st"
    using one by simp
  have d: "restoreWikiContentMongo (host\<lparr>put := put', saveCollabYdoc := save'\<rparr>) db params st =
        restoreWikiContentMongo host db params st"
    using wiki by (simp add: restoreWikiContentMongo_def)
  have e: "restoreControlledDocContentMongo (host\<lparr>put := put', saveCollabYdoc := save'\<rparr>) db
        params st = restoreControlledDocContentMongo host db params st"
    using ctrl by (simp add: restoreControlledDocContentMongo_def)
  have f: "restoreControlledDocContentForDoc (host\<lparr>put := put', saveCollabYdoc := save'\<rparr>) db params
         doc attribute st =
        restoreControlledDocContentForDoc host db params doc attribute st"
    using one by simp
  have g: "restoreControlledDocContentForDoc host db params doc attribute st = (Inr True, st)"
    if "find (\<lambda>t. tx_class t = core_class_TxCreateDoc \<and> tx_objectId t = doc_id doc
                  \<and> tx_objectClass t = doc_class doc) (db_tx db) = Some tx"
      and "map_of (tx_attributes tx) attribute = Some (JsString content)"
      and "CHR '':'' \<in> set content"
      and "stat host st (makeCollabYdocId host (makeDocCollabId host doc attribute)) = Inr None"
    using that dry by (simp add: restoreControlledDocContentForDoc_def getProperty_def Let_def)
  have h: "restoreControlledDocContentMongo_loop host db params (doc # rest) processedCnt
             restoredCnt st =
           restoreControlledDocContentMongo_loop host db params rest (processedCnt + 1)
             (restoredCnt + 1) st"
    if "restoreControlledDocContentForDoc host db params doc attribute st = (Inr True, st)"
      and "attribute = ''content''"
    using that by simp
  from a b c d e f g h show ?thesis by blast
qed

theorem dryRun_writes_nothing_witness:
  "dryRun \<lparr> dryRun = True \<rparr>
   \<and> restoreControlledDocContentForDoc ex_host ex_db \<lparr> dryRun = True \<rparr>
        \<lparr> doc_id = ''cd1'', doc_class = ''documents:class:ControlledDocument'' \<rparr> ''content''
        ex_storage0 = (Inr True, ex_storage0)
   \<and> snd (restoreControlledDocContentMongo ex_host ex_db \<lparr> dryRun = True \<rparr> ex_storage0) =
       ex_storage0
   \<and> snd (restoreWikiContentMongo ex_host ex_db \<lparr> dryRun = True \<rparr> ex_storage0) = ex_storage0
   \<and> fst (restoreControlledDocContentMongo ex_host ex_db \<lparr> dryRun = True \<rparr> ex_storage0) =
       (None, 2, 1)
   \<and> snd (restoreControlledDocContentMongo ex_host ex_db \<lparr> dryRun = False \<rparr> ex_storage0) =
       (''cd1%content'', [''abcdef'']) # ex_storage0
   \<and> snd (restoreWikiContentMongo ex_host ex_db \<lparr> dryRun = False \<rparr> ex_storage0) =
       (''w1%content'', [''content'', ''description'']) # ex_storage0"
proof -
  let ?dry = "\<lparr> dryRun = True \<rparr>"
  let ?cd1 = "\<lparr> doc_id = ''cd1'', doc_class = ''documents:class:ControlledDocument'' \<rparr>"
  have dry: "dryRun ?dry"
    by simp
  note facts = dryRun_writes_nothing
    [OF dry, where host = ex_host and db = ex_db and st = ex_storage0 and doc = ?cd1
       and attribute = "''content''" and put' = "put ex_host"
       and save' = "saveCollabYdoc ex_host" and rest = "[]" and processedCnt = 0
       and restoredCnt = 0 and content = "''blob1:HEAD:0''"
       and tx = "\<lparr> tx_class = ''core:class:TxCreateDoc'', tx_objectId = ''cd1'',
                  tx_objectClass = ''documents:class:ControlledDocument'',
                  tx_attributes = [(''title'', JsString ''SOP''),
                                   (''content'', JsString ''blob1:HEAD:0'')] \<rparr>"]
  have found: "find (\<lambda>t. tx_class t = core_class_TxCreateDoc \<and> tx_objectId t = doc_id ?cd1
                  \<and> tx_objectClass t = doc_class ?cd1) (db_tx ex_db) =
      Some \<lparr> tx_class = ''core:class:TxCreateDoc'', tx_objectId = ''cd1'',
             tx_objectClass = ''documents:class:ControlledDocument'',
             tx_attributes = [(''title'', JsString ''SOP''),
                              (''content'', JsString ''blob1:HEAD:0'')] \<rparr>"
    by (simp add: ex_db_def core_class_TxCreateDoc_def)
  have absent: "stat ex_host ex_storage0
      (makeCollabYdocId ex_host (makeDocCollabId ex_host ?cd1 ''content'')) = Inr None"
    by (simp add: ex_host_def ex_storage0_def)
  have one: "restoreControlledDocContentForDoc ex_host ex_db ?dry ?cd1 ''content'' ex_storage0 =
      (Inr True, ex_storage0)"
    using facts found absent by simp
  have count: "fst (restoreControlledDocContentMongo ex_host ex_db ?dry ex_storage0) = (None, 2, 1)"
    by (simp add: restoreControlledDocContentMongo_def restoreControlledDocContentForDoc_def
        getProperty_def Object_prototype_def
        ex_db_def ex_host_def ex_storage0_def DOMAIN_DOCUMENTS_def core_class_TxCreateDoc_def
        documents_class_ControlledDocument_def documents_class_ControlledDocumentSnapshot_def)
  have wet: "snd (restoreControlledDocContentMongo ex_host ex_db \<lparr> dryRun = False \<rparr> ex_storage0) =
      (''cd1%content'', [''abcdef'']) # ex_storage0"
    by (simp add: restoreControlledDocContentMongo_def restoreControlledDocContentForDoc_def
        getProperty_def Object_prototype_def
        ex_db_def ex_host_def ex_storage0_def DOMAIN_DOCUMENTS_def core_class_TxCreateDoc_def
        documents_class_ControlledDocument_def documents_class_ControlledDocumentSnapshot_def)
  have wet': "snd (restoreWikiContentMongo ex_host ex_db \<lparr> dryRun = False \<rparr> ex_storage0) =
      (''w1%content'', [''content'', ''description'']) # ex_storage0"
    by (simp add: restoreWikiContentMongo_def ex_db_def ex_host_def ex_storage0_def
        DOMAIN_DOCUMENT_def document_class_Document_def)
  from dry one facts count wet wet' show ?thesis by simp
qed

end
